theory Spec2Isabelle
  imports Complex_Main
begin

section \<open>Python values\<close>

text \<open>
  The metric dictionaries of the repository are loosely typed (\<^verbatim>\<open>Dict[str, Any]\<close>).
  A value is \<^verbatim>\<open>None\<close>, a float (with its three special values), an int (a bool
  is an int in Python), a string, or some other object (a list, a dict) on which
  \<^verbatim>\<open>float()\<close> raises \<^verbatim>\<open>TypeError\<close>. Finite floats are idealised as reals.
\<close>

datatype pyfloat = Fin real | PosInf | NegInf | NaN

datatype pyval = PNone | PFloat pyfloat | PInt int | PStr string | POther

datatype py_error = TypeError | ValueError | OverflowError | RuntimeError | ValidationError

type_synonym metrics = "string \<rightharpoonup> pyval"

text \<open>\<^verbatim>\<open>metrics.get(k)\<close>: a missing key reads as \<^verbatim>\<open>None\<close>.\<close>

definition metrics_get :: "metrics \<Rightarrow> string \<Rightarrow> pyval" where
  "metrics_get m k = (case m k of None \<Rightarrow> PNone | Some v \<Rightarrow> v)"

text \<open>Float comparison \<^verbatim>\<open>a < b\<close>: every comparison with NaN is false.\<close>

fun pf_less :: "pyfloat \<Rightarrow> pyfloat \<Rightarrow> bool" where
  "pf_less NaN _ = False"
| "pf_less _ NaN = False"
| "pf_less (Fin a) (Fin b) = (a < b)"
| "pf_less (Fin a) PosInf = True"
| "pf_less (Fin a) NegInf = False"
| "pf_less PosInf _ = False"
| "pf_less NegInf NegInf = False"
| "pf_less NegInf _ = True"

text \<open>Subtraction and division of a float by a finite constant.\<close>

fun pf_sub :: "pyfloat \<Rightarrow> real \<Rightarrow> pyfloat" where
  "pf_sub (Fin a) c = Fin (a - c)"
| "pf_sub PosInf c = PosInf"
| "pf_sub NegInf c = NegInf"
| "pf_sub NaN c = NaN"

fun pf_div :: "pyfloat \<Rightarrow> real \<Rightarrow> pyfloat" where
  "pf_div (Fin a) c = Fin (a / c)"
| "pf_div PosInf c = PosInf"
| "pf_div NegInf c = NegInf"
| "pf_div NaN c = NaN"

text \<open>
  \<^verbatim>\<open>float(v)\<close>. A string is parsed by the interpreter: the parser is the parameter
  \<open>parse\<close> (\<open>None\<close> is \<^verbatim>\<open>ValueError\<close>). An int beyond the double range raises
  \<^verbatim>\<open>OverflowError\<close>.
\<close>

definition py_float :: "(string \<Rightarrow> pyfloat option) \<Rightarrow> pyval \<Rightarrow> py_error + pyfloat" where
  "py_float parse v =
     (case v of
        PNone \<Rightarrow> Inl TypeError
      | PFloat f \<Rightarrow> Inr f
      | PInt n \<Rightarrow> (if \<bar>n\<bar> < 2 ^ 1024 - 2 ^ 970 then Inr (Fin (of_int n)) else Inl OverflowError)
      | PStr s \<Rightarrow> (case parse s of None \<Rightarrow> Inl ValueError | Some f \<Rightarrow> Inr f)
      | POther \<Rightarrow> Inl TypeError)"

text \<open>\<^verbatim>\<open>int(x)\<close> of a float truncates towards zero; \<^verbatim>\<open>round(x)\<close> rounds half to even.
  Both raise \<^verbatim>\<open>OverflowError\<close> on an infinity and \<^verbatim>\<open>ValueError\<close> on NaN.\<close>

definition trunc_real :: "real \<Rightarrow> int" where
  "trunc_real x = (if 0 \<le> x then \<lfloor>x\<rfloor> else \<lceil>x\<rceil>)"

definition round_half_even :: "real \<Rightarrow> int" where
  "round_half_even x =
     (let f = \<lfloor>x\<rfloor>; d = x - of_int f
      in if d < 1 / 2 then f else if 1 / 2 < d then f + 1 else if even f then f else f + 1)"

fun py_int :: "pyfloat \<Rightarrow> py_error + int" where
  "py_int (Fin x) = Inr (trunc_real x)"
| "py_int PosInf = Inl OverflowError"
| "py_int NegInf = Inl OverflowError"
| "py_int NaN = Inl ValueError"

fun py_round :: "pyfloat \<Rightarrow> py_error + int" where
  "py_round (Fin x) = Inr (round_half_even x)"
| "py_round PosInf = Inl OverflowError"
| "py_round NegInf = Inl OverflowError"
| "py_round NaN = Inl ValueError"

text \<open>\<^verbatim>\<open>a != raw\<close> for a float \<open>a\<close> and a raw dictionary value.\<close>

fun py_ne :: "pyfloat \<Rightarrow> pyval \<Rightarrow> bool" where
  "py_ne (Fin a) (PFloat (Fin b)) = (a \<noteq> b)"
| "py_ne (Fin a) (PInt n) = (a \<noteq> of_int n)"
| "py_ne PosInf (PFloat PosInf) = False"
| "py_ne NegInf (PFloat NegInf) = False"
| "py_ne _ _ = True"

text \<open>Sequencing of fallible steps: an exception propagates.\<close>

definition bind_err :: "py_error + 'a \<Rightarrow> ('a \<Rightarrow> py_error + 'b) \<Rightarrow> py_error + 'b" where
  "bind_err r f = (case r of Inl e \<Rightarrow> Inl e | Inr x \<Rightarrow> f x)"

text \<open>\<^verbatim>\<open>except (TypeError, ValueError)\<close>: these two are handled, anything else
  propagates to the caller.\<close>

definition catch_tv :: "py_error + 'a \<Rightarrow> 'a \<Rightarrow> py_error + 'a" where
  "catch_tv r handler =
     (case r of
        Inr x \<Rightarrow> Inr x
      | Inl e \<Rightarrow> (if e = TypeError \<or> e = ValueError then Inr handler else Inl e))"

section \<open>Preprocessing (model/preprocessing.py)\<close>

text \<open>\<^verbatim>\<open>clip_to_range\<close> is \<^verbatim>\<open>max(min_val, min(max_val, value))\<close>. Python's
  \<^verbatim>\<open>min(a, b)\<close> keeps \<open>a\<close> unless \<open>b < a\<close>, and \<^verbatim>\<open>max(a, b)\<close> keeps \<open>a\<close>
  unless \<open>b > a\<close>.\<close>

definition clip_to_range :: "pyfloat \<Rightarrow> real \<Rightarrow> real \<Rightarrow> pyfloat" where
  "clip_to_range v min_val max_val =
     (let w = (if pf_less v (Fin max_val) then v else Fin max_val)
      in if pf_less (Fin min_val) w then w else Fin min_val)"

definition clip_to_range_int :: "int \<Rightarrow> int \<Rightarrow> int \<Rightarrow> int" where
  "clip_to_range_int v min_val max_val =
     (let w = (if v < max_val then v else max_val)
      in if min_val < w then w else min_val)"

text \<open>A float that is finite and lies in a closed range.\<close>

definition in_range :: "pyfloat \<Rightarrow> real \<Rightarrow> real \<Rightarrow> bool" where
  "in_range v lo hi = (case v of Fin x \<Rightarrow> lo \<le> x \<and> x \<le> hi | _ \<Rightarrow> False)"

definition handle_missing :: "pyval \<Rightarrow> pyval \<Rightarrow> pyval" where
  "handle_missing v dflt = (if v = PNone \<or> v = PFloat NaN then dflt else v)"

text \<open>The assumption messages are kept as tags carrying the values they print.\<close>

datatype assumption =
    AqiAdjusted pyval pyfloat
  | AqiInvalid
  | TrafficInvalid
  | TempKelvin pyfloat
  | TempInvalid
  | RainInvalid
  | HospitalPercent pyfloat
  | HospitalInvalid
  | CasesInvalid
  | EnvRiskInvalid
  | CropInvalid
  | PriceInvalid
  | DisruptionsInvalid

text \<open>The shape of one \<^verbatim>\<open>try\<close> block for a float field: default, convert, clip; on a
  handled exception the default and the field's tag.\<close>

definition float_field ::
  "(string \<Rightarrow> pyfloat option) \<Rightarrow> metrics \<Rightarrow> string \<Rightarrow> real \<Rightarrow> real \<Rightarrow> real \<Rightarrow> assumption
     \<Rightarrow> py_error + (pyfloat \<times> assumption list)" where
  "float_field parse m k dflt lo hi tag =
     catch_tv
       (bind_err (py_float parse (handle_missing (metrics_get m k) (PFloat (Fin dflt))))
          (\<lambda>x. Inr (clip_to_range x lo hi, [])))
       (Fin dflt, [tag])"

text \<open>Temperature: a value above 200 is taken for Kelvin. Only the environmental
  slice records the conversion.\<close>

definition temperature_field ::
  "(string \<Rightarrow> pyfloat option) \<Rightarrow> metrics \<Rightarrow> real \<Rightarrow> bool \<Rightarrow> py_error + (pyfloat \<times> assumption list)" where
  "temperature_field parse m dflt record_conversion =
     catch_tv
       (bind_err (py_float parse (handle_missing (metrics_get m ''temperature'') (PFloat (Fin dflt))))
          (\<lambda>x. if pf_less (Fin 200) x
               then (let t = pf_sub x 273.15
                     in Inr (clip_to_range t 0 50, if record_conversion then [TempKelvin t] else []))
               else Inr (clip_to_range x 0 50, [])))
       (Fin dflt, [TempInvalid])"

record env_metrics =
  em_aqi :: pyfloat
  em_traffic_density :: int
  em_temperature :: pyfloat
  em_rainfall :: pyfloat

definition preprocess_environmental_metrics ::
  "(string \<Rightarrow> pyfloat option) \<Rightarrow> metrics \<Rightarrow> py_error + (env_metrics \<times> assumption list)" where
  "preprocess_environmental_metrics parse m =
     bind_err
       (catch_tv
          (bind_err (py_float parse (handle_missing (metrics_get m ''aqi'') (PFloat (Fin 100))))
             (\<lambda>x. let aqi = clip_to_range x 0 500
                  in Inr (aqi, if py_ne aqi (metrics_get m ''aqi'')
                               then [AqiAdjusted (metrics_get m ''aqi'') aqi] else [])))
          (Fin 100, [AqiInvalid]))
       (\<lambda>(aqi, a1).
     bind_err
       (catch_tv
          (bind_err (py_float parse (handle_missing (metrics_get m ''traffic_density'') (PInt 1)))
             (\<lambda>x. bind_err (py_round x) (\<lambda>n. Inr (clip_to_range_int n 0 2, []))))
          (1, [TrafficInvalid]))
       (\<lambda>(traffic, a2).
     bind_err (temperature_field parse m 30 True)
       (\<lambda>(temp, a3).
     bind_err (float_field parse m ''rainfall'' 20 0 200 RainInvalid)
       (\<lambda>(rain, a4).
     Inr (\<lparr>em_aqi = aqi, em_traffic_density = traffic, em_temperature = temp,
            em_rainfall = rain\<rparr>,
          a1 @ a2 @ a3 @ a4)))))"

record health_metrics =
  hm_aqi :: pyfloat
  hm_hospital_load :: pyfloat
  hm_respiratory_cases :: int
  hm_temperature :: pyfloat
  hm_environmental_risk_prob :: pyfloat

text \<open>An int field: \<^verbatim>\<open>int(float(v))\<close>, then clipped.\<close>

definition int_field ::
  "(string \<Rightarrow> pyfloat option) \<Rightarrow> metrics \<Rightarrow> string \<Rightarrow> int \<Rightarrow> int \<Rightarrow> int \<Rightarrow> assumption
     \<Rightarrow> py_error + (int \<times> assumption list)" where
  "int_field parse m k dflt lo hi tag =
     catch_tv
       (bind_err (py_float parse (handle_missing (metrics_get m k) (PInt dflt)))
          (\<lambda>x. bind_err (py_int x) (\<lambda>n. Inr (clip_to_range_int n lo hi, []))))
       (dflt, [tag])"

text \<open>\<^verbatim>\<open>preprocess_health_metrics\<close>; \<open>env_risk_prob\<close> is the optional argument.\<close>

definition preprocess_health_metrics ::
  "(string \<Rightarrow> pyfloat option) \<Rightarrow> metrics \<Rightarrow> pyfloat option
     \<Rightarrow> py_error + (health_metrics \<times> assumption list)" where
  "preprocess_health_metrics parse m env_risk_prob =
     bind_err (float_field parse m ''aqi'' 100 0 500 AqiInvalid)
       (\<lambda>(aqi, a1).
     bind_err
       (catch_tv
          (bind_err (py_float parse (handle_missing (metrics_get m ''hospital_load'') (PFloat (Fin 0.65))))
             (\<lambda>x. if pf_less (Fin 1) x
                  then (let l = pf_div x 100 in Inr (clip_to_range l 0 1, [HospitalPercent l]))
                  else Inr (clip_to_range x 0 1, [])))
          (Fin 0.65, [HospitalInvalid]))
       (\<lambda>(load, a2).
     bind_err (int_field parse m ''respiratory_cases'' 200 0 10000 CasesInvalid)
       (\<lambda>(cases, a3).
     bind_err (temperature_field parse m 30 False)
       (\<lambda>(temp, a4).
     bind_err
       (case env_risk_prob of
          Some p \<Rightarrow> Inr (clip_to_range p 0 1, [])
        | None \<Rightarrow> float_field parse m ''environmental_risk_prob'' 0.5 0 1 EnvRiskInvalid)
       (\<lambda>(erp, a5).
     Inr (\<lparr>hm_aqi = aqi, hm_hospital_load = load, hm_respiratory_cases = cases,
            hm_temperature = temp, hm_environmental_risk_prob = erp\<rparr>,
          a1 @ a2 @ a3 @ a4 @ a5))))))"

record food_metrics =
  fm_crop_supply_index :: pyfloat
  fm_food_price_index :: pyfloat
  fm_rainfall :: pyfloat
  fm_temperature :: pyfloat
  fm_supply_disruption_events :: int

definition preprocess_food_metrics ::
  "(string \<Rightarrow> pyfloat option) \<Rightarrow> metrics \<Rightarrow> py_error + (food_metrics \<times> assumption list)" where
  "preprocess_food_metrics parse m =
     bind_err (float_field parse m ''crop_supply_index'' 75 0 100 CropInvalid)
       (\<lambda>(supply, a1).
     bind_err (float_field parse m ''food_price_index'' 100 50 200 PriceInvalid)
       (\<lambda>(price, a2).
     bind_err (float_field parse m ''rainfall'' 40 0 200 RainInvalid)
       (\<lambda>(rain, a3).
     bind_err (temperature_field parse m 30 False)
       (\<lambda>(temp, a4).
     bind_err (int_field parse m ''supply_disruption_events'' 1 0 10 DisruptionsInvalid)
       (\<lambda>(disruptions, a5).
     Inr (\<lparr>fm_crop_supply_index = supply, fm_food_price_index = price, fm_rainfall = rain,
            fm_temperature = temp, fm_supply_disruption_events = disruptions\<rparr>,
          a1 @ a2 @ a3 @ a4 @ a5))))))"

text \<open>\<^verbatim>\<open>preprocess_all_metrics\<close>: the three slices in order, their assumptions
  collected in that order.\<close>

definition preprocess_all_metrics ::
  "(string \<Rightarrow> pyfloat option) \<Rightarrow> metrics
     \<Rightarrow> py_error + (env_metrics \<times> health_metrics \<times> food_metrics \<times> assumption list)" where
  "preprocess_all_metrics parse m =
     bind_err (preprocess_environmental_metrics parse m)
       (\<lambda>(env, ea).
     bind_err (preprocess_health_metrics parse m None)
       (\<lambda>(health, ha).
     bind_err (preprocess_food_metrics parse m)
       (\<lambda>(food, fa).
     Inr (env, health, food, ea @ ha @ fa))))"

section \<open>Classifiers and the cascading engine (model/cascading\_engine.py)\<close>

text \<open>
  A trained classifier is opaque: \<^verbatim>\<open>predict_with_proba\<close> maps a feature row to a
  class label, the three class probabilities and the probability of the predicted class,
  or raises. Both engines hold three of them and a training flag.
\<close>

record model_result =
  mr_class :: string
  mr_low :: real
  mr_medium :: real
  mr_high :: real
  mr_confidence :: real

type_synonym classifier = "pyfloat list \<Rightarrow> py_error + model_result"

record engine =
  is_trained :: bool
  env_model :: classifier
  health_model :: classifier
  food_model :: classifier

text \<open>The per-domain entry of the result is a dictionary with the keys
  \<^verbatim>\<open>risk\<close>, \<^verbatim>\<open>prob\<close> and \<^verbatim>\<open>probabilities\<close>; the probabilities are listed
  low, medium, high.\<close>

datatype dval = DStr string | DNum real | DProbs real real real

type_synonym domain_dict = "string \<rightharpoonup> dval"

definition domain_entry :: "model_result \<Rightarrow> domain_dict" where
  "domain_entry r =
     [''risk'' \<mapsto> DStr (mr_class r),
      ''prob'' \<mapsto> DNum (mr_high r),
      ''probabilities'' \<mapsto> DProbs (mr_low r) (mr_medium r) (mr_high r)]"

record confidence_scores =
  conf_environmental :: real
  conf_health :: real
  conf_food_security :: real

record cascade_result =
  environmental :: domain_dict
  health :: domain_dict
  food_security :: domain_dict
  resilience_score :: int
  confidence :: confidence_scores
  env_risk_injected_to_health :: real
  assumptions :: "assumption list option"

definition RESILIENCE_WEIGHT_environmental :: real where
  "RESILIENCE_WEIGHT_environmental = 0.35"

definition RESILIENCE_WEIGHT_health :: real where
  "RESILIENCE_WEIGHT_health = 0.40"

definition RESILIENCE_WEIGHT_food :: real where
  "RESILIENCE_WEIGHT_food = 0.25"

text \<open>\<^verbatim>\<open>_calculate_resilience_score\<close>: the result is
  \<^verbatim>\<open>int(max(0, min(100, resilience)))\<close>.\<close>

definition calculate_resilience_score :: "real \<Rightarrow> real \<Rightarrow> real \<Rightarrow> int" where
  "calculate_resilience_score env_high_prob health_high_prob food_high_prob =
     (let weighted_risk =
            RESILIENCE_WEIGHT_environmental * env_high_prob +
            RESILIENCE_WEIGHT_health * health_high_prob +
            RESILIENCE_WEIGHT_food * food_high_prob;
          resilience = 100 * (1 - weighted_risk)
      in trunc_real (max 0 (min 100 resilience)))"

text \<open>\<^verbatim>\<open>_calculate_confidence\<close>; \<^verbatim>\<open>round(x, 3)\<close> is taken on the real value.\<close>

definition round3 :: "real \<Rightarrow> real" where
  "round3 x = of_int (round_half_even (x * 1000)) / 1000"

definition calculate_confidence :: "real list \<Rightarrow> real" where
  "calculate_confidence probabilities =
     (let clipped = map (\<lambda>p. max (1 / 10 ^ 10) (min 1 p)) probabilities;
          probs = map (\<lambda>p. p / sum_list clipped) clipped;
          entropy = - sum_list (map (\<lambda>p. p * ln p) probs);
          max_entropy = ln (real (length probs));
          entropy_confidence = 1 - entropy / max_entropy;
          sorted_probs = rev (sort probs);
          margin = (if 1 < length sorted_probs then sorted_probs ! 0 - sorted_probs ! 1
                    else sorted_probs ! 0)
      in round3 (0.6 * entropy_confidence + 0.4 * margin))"

text \<open>The three feature rows, in the order the code builds them.\<close>

definition env_features :: "env_metrics \<Rightarrow> pyfloat list" where
  "env_features e =
     [em_aqi e, Fin (of_int (em_traffic_density e)), em_temperature e, em_rainfall e]"

definition health_features :: "health_metrics \<Rightarrow> pyfloat list" where
  "health_features h =
     [hm_aqi h, hm_hospital_load h, Fin (of_int (hm_respiratory_cases h)), hm_temperature h,
      hm_environmental_risk_prob h]"

definition food_features :: "food_metrics \<Rightarrow> pyfloat list" where
  "food_features f =
     [fm_crop_supply_index f, fm_food_price_index f, fm_rainfall f, fm_temperature f,
      Fin (of_int (fm_supply_disruption_events f))]"

definition probs_of :: "model_result \<Rightarrow> real list" where
  "probs_of r = [mr_low r, mr_medium r, mr_high r]"

text \<open>\<^verbatim>\<open>CascadingRiskEngine.predict_cascading_risks\<close>. The formatted description
  string of the cascading effect is not modelled.\<close>

definition predict_cascading_risks ::
  "(string \<Rightarrow> pyfloat option) \<Rightarrow> engine \<Rightarrow> metrics \<Rightarrow> py_error + cascade_result" where
  "predict_cascading_risks parse eng m =
     (if \<not> is_trained eng then Inl RuntimeError
      else
     bind_err (preprocess_all_metrics parse m)
       (\<lambda>(env_metrics, health_metrics, food_metrics, assumptions).
     bind_err (env_model eng (env_features env_metrics))
       (\<lambda>env_result.
     let env_high_prob = mr_high env_result;
         health_metrics' = health_metrics\<lparr>hm_environmental_risk_prob := Fin env_high_prob\<rparr>
     in
     bind_err (health_model eng (health_features health_metrics'))
       (\<lambda>health_result.
     bind_err (food_model eng (food_features food_metrics))
       (\<lambda>food_result.
     Inr \<lparr>environmental = domain_entry env_result,
          health = domain_entry health_result,
          food_security = domain_entry food_result,
          resilience_score =
            calculate_resilience_score env_high_prob (mr_high health_result) (mr_high food_result),
          confidence =
            \<lparr>conf_environmental = calculate_confidence (probs_of env_result),
             conf_health = calculate_confidence (probs_of health_result),
             conf_food_security = calculate_confidence (probs_of food_result)\<rparr>,
          env_risk_injected_to_health = env_high_prob,
          assumptions = (if assumptions = [] then None else Some assumptions)\<rparr>)))))"

section \<open>The single-domain engine (model/risk\_engine.py)\<close>

record risk_prediction =
  rp_risk_class :: string
  rp_low :: real
  rp_medium :: real
  rp_high :: real
  rp_confidence :: real

definition single_sample :: "model_result \<Rightarrow> risk_prediction" where
  "single_sample r =
     \<lparr>rp_risk_class = mr_class r, rp_low = mr_low r, rp_medium = mr_medium r,
      rp_high = mr_high r, rp_confidence = mr_confidence r\<rparr>"

text \<open>\<^verbatim>\<open>RiskEngine.predict_environmental\<close>, with its threshold override.\<close>

definition predict_environmental ::
  "engine \<Rightarrow> pyfloat \<Rightarrow> int \<Rightarrow> pyfloat \<Rightarrow> pyfloat \<Rightarrow> py_error + risk_prediction" where
  "predict_environmental eng aqi traffic_density temperature rainfall =
     (if pf_less (Fin 300) aqi
      then Inr \<lparr>rp_risk_class = ''high'', rp_low = 0.02, rp_medium = 0.08, rp_high = 0.90,
                rp_confidence = 0.99\<rparr>
      else bind_err
             (env_model eng [aqi, Fin (of_int traffic_density), temperature, rainfall])
             (\<lambda>r. Inr (single_sample r)))"

definition predict_health ::
  "engine \<Rightarrow> pyfloat \<Rightarrow> pyfloat \<Rightarrow> int \<Rightarrow> pyfloat \<Rightarrow> pyfloat \<Rightarrow> py_error + risk_prediction" where
  "predict_health eng aqi hospital_load respiratory_cases temperature environmental_risk_prob =
     bind_err
       (health_model eng
          [aqi, hospital_load, Fin (of_int respiratory_cases), temperature,
           environmental_risk_prob])
       (\<lambda>r. Inr (single_sample r))"

text \<open>\<^verbatim>\<open>RiskEngine.predict_food_security\<close>, with its threshold override.\<close>

definition predict_food_security ::
  "engine \<Rightarrow> pyfloat \<Rightarrow> pyfloat \<Rightarrow> pyfloat \<Rightarrow> pyfloat \<Rightarrow> int \<Rightarrow> py_error + risk_prediction" where
  "predict_food_security eng crop_supply_index food_price_index rainfall temperature
       supply_disruption_events =
     (if pf_less crop_supply_index (Fin 30)
      then Inr \<lparr>rp_risk_class = ''high'', rp_low = 0.01, rp_medium = 0.04, rp_high = 0.95,
                rp_confidence = 0.99\<rparr>
      else bind_err
             (food_model eng
                [crop_supply_index, food_price_index, rainfall, temperature,
                 Fin (of_int supply_disruption_events)])
             (\<lambda>r. Inr (single_sample r)))"

section \<open>The real-time state manager (api/realtime.py)\<close>

text \<open>
  The slots hold the fields of the update schema \<^verbatim>\<open>RealtimeUpdate\<close>: optional floats,
  an optional int for the respiratory cases, and an optional timestamp. Timestamps and
  clock readings are seconds as reals; a Python int and the float of the same value are
  not told apart.
\<close>

record environmental_state =
  es_aqi :: "real option"
  es_temperature :: "real option"
  es_humidity :: "real option"
  es_timestamp :: "real option"

record health_state =
  hs_hospital_load :: "real option"
  hs_respiratory_cases :: "int option"
  hs_timestamp :: "real option"

record food_state =
  fs_price_volatility :: "real option"
  fs_supply_index :: "real option"
  fs_timestamp :: "real option"

record prediction_record =
  pr_timestamp :: real
  pr_environmental_risk :: string
  pr_environmental_prob :: real
  pr_health_risk :: string
  pr_health_prob :: real
  pr_food_security_risk :: string
  pr_food_security_prob :: real
  pr_confidence :: real
  pr_inference_time_ms :: real

record manager =
  environmental_state :: environmental_state
  health_state :: health_state
  food_state :: food_state
  prediction_history :: "prediction_record list"
  latest_prediction :: "prediction_record option"
  last_inference_time :: real

definition WINDOW_SIZE :: nat where
  "WINDOW_SIZE = 60"

definition STALE_THRESHOLD :: real where
  "STALE_THRESHOLD = 60"

definition MAX_INFERENCE_RATE :: real where
  "MAX_INFERENCE_RATE = 2"

definition init_manager :: manager where
  "init_manager =
     \<lparr>environmental_state =
        \<lparr>es_aqi = None, es_temperature = None, es_humidity = None, es_timestamp = None\<rparr>,
      health_state =
        \<lparr>hs_hospital_load = None, hs_respiratory_cases = None, hs_timestamp = None\<rparr>,
      food_state =
        \<lparr>fs_price_volatility = None, fs_supply_index = None, fs_timestamp = None\<rparr>,
      prediction_history = [],
      latest_prediction = None,
      last_inference_time = 0\<rparr>"

text \<open>The confidence of one slot, from the age of its timestamp at \<open>now\<close>.\<close>

definition slot_confidence :: "real \<Rightarrow> real option \<Rightarrow> real" where
  "slot_confidence now ts =
     (case ts of
        None \<Rightarrow> 0.5
      | Some t \<Rightarrow>
          (let age_seconds = now - t
           in if age_seconds < STALE_THRESHOLD then 1.0
              else if age_seconds < STALE_THRESHOLD * 2 then 0.8
              else if age_seconds < STALE_THRESHOLD * 5 then 0.5
              else 0.3))"

text \<open>\<^verbatim>\<open>get_confidence\<close>; \<open>now\<close> is the reading of \<^verbatim>\<open>datetime.now()\<close>.\<close>

definition get_confidence :: "real \<Rightarrow> manager \<Rightarrow> real" where
  "get_confidence now s =
     (let confidences =
            map (slot_confidence now)
              [es_timestamp (environmental_state s), hs_timestamp (health_state s),
               fs_timestamp (food_state s)]
      in sum_list confidences / real (length confidences))"

text \<open>\<^verbatim>\<open>x or d\<close>: \<^verbatim>\<open>None\<close> and zero are falsy.\<close>

definition py_or :: "'a::zero option \<Rightarrow> 'a \<Rightarrow> 'a" where
  "py_or x d = (case x of None \<Rightarrow> d | Some v \<Rightarrow> if v = 0 then d else v)"

record merged_state =
  ms_aqi :: real
  ms_temperature :: real
  ms_humidity :: real
  ms_hospital_load :: real
  ms_respiratory_cases :: int
  ms_bed_occupancy_percent :: real
  ms_price_volatility :: real
  ms_crop_supply_index :: real
  ms_confidence :: real

definition get_merged_state :: "real \<Rightarrow> manager \<Rightarrow> merged_state" where
  "get_merged_state now s =
     \<lparr>ms_aqi = py_or (es_aqi (environmental_state s)) 100,
      ms_temperature = py_or (es_temperature (environmental_state s)) 25,
      ms_humidity = py_or (es_humidity (environmental_state s)) 60,
      ms_hospital_load = py_or (hs_hospital_load (health_state s)) 0.5,
      ms_respiratory_cases = py_or (hs_respiratory_cases (health_state s)) 100,
      ms_bed_occupancy_percent = py_or (hs_hospital_load (health_state s)) 0.5 * 100,
      ms_price_volatility = py_or (fs_price_volatility (food_state s)) 0.1,
      ms_crop_supply_index = py_or (fs_supply_index (food_state s)) 80,
      ms_confidence = get_confidence now s\<rparr>"

text \<open>The metric dictionary that \<^verbatim>\<open>run_inference\<close> hands to the engine. Every key
  it reads from the merged state is present there, so the defaults of its
  \<^verbatim>\<open>state.get\<close> calls are never taken.\<close>

definition inference_metrics :: "merged_state \<Rightarrow> metrics" where
  "inference_metrics st =
     [''temperature'' \<mapsto> PFloat (Fin (ms_temperature st)),
      ''aqi'' \<mapsto> PFloat (Fin (ms_aqi st)),
      ''humidity'' \<mapsto> PFloat (Fin (ms_humidity st)),
      ''respiratory_cases'' \<mapsto> PInt (ms_respiratory_cases st),
      ''price_volatility'' \<mapsto> PFloat (Fin (ms_price_volatility st)),
      ''bed_occupancy_percent'' \<mapsto> PFloat (Fin (ms_bed_occupancy_percent st)),
      ''crop_supply_index'' \<mapsto> PFloat (Fin (ms_crop_supply_index st))]"

text \<open>\<^verbatim>\<open>d.get(k, default)\<close> into a typed field of \<^verbatim>\<open>PredictionRecord\<close>: a value of
  the wrong type fails validation.\<close>

definition get_str :: "domain_dict \<Rightarrow> string \<Rightarrow> string \<Rightarrow> py_error + string" where
  "get_str d k dflt =
     (case d k of None \<Rightarrow> Inr dflt | Some (DStr v) \<Rightarrow> Inr v | Some _ \<Rightarrow> Inl ValidationError)"

definition get_num :: "domain_dict \<Rightarrow> string \<Rightarrow> real \<Rightarrow> py_error + real" where
  "get_num d k dflt =
     (case d k of None \<Rightarrow> Inr dflt | Some (DNum v) \<Rightarrow> Inr v | Some _ \<Rightarrow> Inl ValidationError)"

text \<open>The clock readings of one call, in the order the code takes them.\<close>

record clock =
  ck_current_time :: real
  ck_start_time :: real
  ck_confidence_now :: real
  ck_end_time :: real
  ck_record_now :: real

definition make_record ::
  "cascade_result \<Rightarrow> real \<Rightarrow> real \<Rightarrow> real \<Rightarrow> py_error + prediction_record" where
  "make_record result freshness inference_time_ms now =
     bind_err (get_str (environmental result) ''risk_level'' ''medium'') (\<lambda>er.
     bind_err (get_num (environmental result) ''high_prob'' 0.5) (\<lambda>ep.
     bind_err (get_str (health result) ''risk_level'' ''low'') (\<lambda>hr.
     bind_err (get_num (health result) ''high_prob'' 0.2) (\<lambda>hp.
     bind_err (get_str (food_security result) ''risk_level'' ''low'') (\<lambda>fr.
     bind_err (get_num (food_security result) ''high_prob'' 0.1) (\<lambda>fp.
     Inr \<lparr>pr_timestamp = now,
          pr_environmental_risk = er, pr_environmental_prob = ep,
          pr_health_risk = hr, pr_health_prob = hp,
          pr_food_security_risk = fr, pr_food_security_prob = fp,
          pr_confidence = freshness,
          pr_inference_time_ms = inference_time_ms\<rparr>))))))"

text \<open>\<^verbatim>\<open>deque(maxlen=WINDOW_SIZE).append\<close>: the oldest entries fall out.\<close>

definition deque_append :: "'a list \<Rightarrow> 'a \<Rightarrow> 'a list" where
  "deque_append xs x = drop (length (xs @ [x]) - WINDOW_SIZE) (xs @ [x])"

definition gate_rejects :: "manager \<Rightarrow> real \<Rightarrow> bool" where
  "gate_rejects s current_time = (current_time - last_inference_time s < 1.0 / MAX_INFERENCE_RATE)"

text \<open>\<^verbatim>\<open>run_inference\<close>. The engine is the function the singleton offers; whatever is
  raised inside the \<^verbatim>\<open>try\<close> block ends in \<^verbatim>\<open>return None\<close>, after the rate stamp is
  taken.\<close>

definition run_inference ::
  "(metrics \<Rightarrow> py_error + cascade_result) \<Rightarrow> clock \<Rightarrow> manager
     \<Rightarrow> prediction_record option \<times> manager" where
  "run_inference engine_predict ck s =
     (if gate_rejects s (ck_current_time ck) then (None, s)
      else
        (let s1 = s\<lparr>last_inference_time := ck_current_time ck\<rparr>;
             state = get_merged_state (ck_confidence_now ck) s1;
             freshness = ms_confidence state
         in case bind_err (engine_predict (inference_metrics state))
                   (\<lambda>result. make_record result freshness
                                ((ck_end_time ck - ck_start_time ck) * 1000) (ck_record_now ck)) of
              Inl e \<Rightarrow> (None, s1)
            | Inr record \<Rightarrow>
                (Some record,
                 s1\<lparr>prediction_history := deque_append (prediction_history s1) record,
                    latest_prediction := Some record\<rparr>)))"

text \<open>A sequence of calls, given by their clock readings; and the gate readings of
  the calls that got past the gate.\<close>

fun run_calls ::
  "(metrics \<Rightarrow> py_error + cascade_result) \<Rightarrow> manager \<Rightarrow> clock list
     \<Rightarrow> prediction_record option list \<times> manager" where
  "run_calls engine_predict s [] = ([], s)"
| "run_calls engine_predict s (ck # cks) =
     (let (r, s1) = run_inference engine_predict ck s;
          (rs, s2) = run_calls engine_predict s1 cks
      in (r # rs, s2))"

fun executed_times ::
  "(metrics \<Rightarrow> py_error + cascade_result) \<Rightarrow> manager \<Rightarrow> clock list \<Rightarrow> real list" where
  "executed_times engine_predict s [] = []"
| "executed_times engine_predict s (ck # cks) =
     (if gate_rejects s (ck_current_time ck)
      then executed_times engine_predict (snd (run_inference engine_predict ck s)) cks
      else ck_current_time ck #
             executed_times engine_predict (snd (run_inference engine_predict ck s)) cks)"

section \<open>Scenario signals (api/schemas.py)\<close>

datatype event = Flood | Heatwave | Drought | Pollution | Cyclone | NoEvent

datatype severity = SevLow | SevModerate | SevHigh

datatype duration = DurShort | DurModerate | DurProlonged

datatype impact =
    TransportDisruption
  | HospitalAccessReduction
  | PowerOutage
  | WaterShortage
  | FoodSupplyDisruption
  | NoImpact

datatype level = LevelHigh | LevelMedium | LevelLow

record scenario_signals =
  primary_events :: "event list"
  sig_duration :: duration
  sig_severity :: severity
  secondary_impacts :: "impact list"
  sig_confidence :: level

section \<open>Signal extraction\<close>

text \<open>\<^verbatim>\<open>prompt.lower()\<close> on the ASCII letters, and the substring test
  \<^verbatim>\<open>kw in prompt\<close>.\<close>

definition lower_char :: "char \<Rightarrow> char" where
  "lower_char c =
     (let n = (of_char c :: nat) in if 65 \<le> n \<and> n \<le> 90 then char_of (n + 32) else c)"

definition lower :: "string \<Rightarrow> string" where
  "lower p = map lower_char p"

fun starts_with :: "string \<Rightarrow> string \<Rightarrow> bool" where
  "starts_with [] p = True"
| "starts_with (k # ks) [] = False"
| "starts_with (k # ks) (c # cs) = (k = c \<and> starts_with ks cs)"

fun contains :: "string \<Rightarrow> string \<Rightarrow> bool" where
  "contains kw [] = (kw = [])"
| "contains kw (c # cs) = (starts_with kw (c # cs) \<or> contains kw cs)"

definition any_keyword :: "string list \<Rightarrow> string \<Rightarrow> bool" where
  "any_keyword kws p = list_ex (\<lambda>kw. contains kw p) kws"

text \<open>The keyword tables, in the order of the dictionaries.\<close>

definition KEYWORDS_primary_events :: "(event \<times> string list) list" where
  "KEYWORDS_primary_events =
     [(Flood, [''flood'', ''flooding'', ''heavy rain'', ''monsoon'', ''waterlogging'', ''deluge'']),
      (Heatwave, [''heatwave'', ''heat'', ''hot'', ''temperature spike'', ''scorching'', ''sun'']),
      (Drought, [''drought'', ''dry'', ''arid'', ''water shortage'', ''no rain'']),
      (Pollution, [''pollution'', ''smog'', ''aqi'', ''air quality'', ''haze'', ''toxic'']),
      (Cyclone, [''cyclone'', ''storm'', ''hurricane'', ''wind'', ''gale''])]"

definition KEYWORDS_severity :: "(severity \<times> string list) list" where
  "KEYWORDS_severity =
     [(SevHigh, [''severe'', ''extreme'', ''catastrophic'', ''massive'', ''deadly'', ''critical'',
                 ''major'']),
      (SevLow, [''mild'', ''minor'', ''slight'', ''small'', ''low'']),
      (SevModerate, [''moderate'', ''medium'', ''average''])]"

definition KEYWORDS_duration :: "(duration \<times> string list) list" where
  "KEYWORDS_duration =
     [(DurProlonged, [''prolonged'', ''long'', ''weeks'', ''month'', ''extended'', ''chronic'',
                      ''persistent'']),
      (DurShort, [''short'', ''brief'', ''flash'', ''sudden'', ''day'', ''hour'']),
      (DurModerate, [''moderate'', ''medium''])]"

text \<open>The secondary impacts of \<^verbatim>\<open>ScenarioDeltas\<close> (api/scenario\_deltas.py) and of
  \<^verbatim>\<open>ScenarioInterpreter\<close> (api/scenario\_interpreter.py).\<close>

definition KEYWORDS_secondary_impacts :: "(impact \<times> string list) list" where
  "KEYWORDS_secondary_impacts =
     [(TransportDisruption, [''traffic'', ''transport'', ''road'', ''commute'', ''stuck'', ''jam'']),
      (HospitalAccessReduction, [''hospital'', ''medical'', ''ambulance'', ''health'', ''access'']),
      (PowerOutage, [''power'', ''electricity'', ''blackout'', ''outage'', ''light'']),
      (WaterShortage, [''water supply'', ''dry tap'', ''drinking water'']),
      (FoodSupplyDisruption, [''food'', ''crop'', ''supply'', ''market'', ''shortage''])]"

definition KEYWORDS_secondary_impacts_interpreter :: "(impact \<times> string list) list" where
  "KEYWORDS_secondary_impacts_interpreter =
     [(TransportDisruption, [''traffic'', ''transport'', ''road'', ''commute'', ''stuck'', ''jam'']),
      (HospitalAccessReduction, [''hospital'', ''medical'', ''ambulance'', ''health'', ''access'']),
      (FoodSupplyDisruption, [''food'', ''crop'', ''supply'', ''market'', ''shortage''])]"

text \<open>All entries that match (multi-select), and the first entry that matches.\<close>

definition all_matches :: "('a \<times> string list) list \<Rightarrow> string \<Rightarrow> 'a list" where
  "all_matches table p = map fst (filter (\<lambda>(x, kws). any_keyword kws p) table)"

fun first_match :: "('a \<times> string list) list \<Rightarrow> string \<Rightarrow> 'a \<Rightarrow> 'a" where
  "first_match [] p dflt = dflt"
| "first_match ((x, kws) # rest) p dflt = (if any_keyword kws p then x else first_match rest p dflt)"

definition level_of_count :: "nat \<Rightarrow> level" where
  "level_of_count match_count =
     (if 2 \<le> match_count then LevelHigh else if match_count = 1 then LevelMedium else LevelLow)"

text \<open>\<^verbatim>\<open>ScenarioDeltas.extract_scenario_signals\<close>, the extractor behind the
  scenario endpoint.\<close>

definition extract_scenario_signals :: "string \<Rightarrow> scenario_signals" where
  "extract_scenario_signals prompt =
     (let prompt_lower = lower prompt;
          events = all_matches KEYWORDS_primary_events prompt_lower;
          sev = first_match KEYWORDS_severity prompt_lower SevModerate;
          dur = first_match KEYWORDS_duration prompt_lower DurModerate;
          impacts = all_matches KEYWORDS_secondary_impacts prompt_lower;
          match_count = length events + length impacts + (if sev \<noteq> SevModerate then 1 else 0)
      in \<lparr>primary_events = (if events \<noteq> [] then events else [NoEvent]),
          sig_duration = dur,
          sig_severity = sev,
          secondary_impacts = impacts,
          sig_confidence = level_of_count match_count\<rparr>)"

text \<open>\<^verbatim>\<open>ScenarioInterpreter.extract_signals\<close>.\<close>

definition extract_signals :: "string \<Rightarrow> scenario_signals" where
  "extract_signals prompt =
     (let p = lower prompt;
          events = all_matches KEYWORDS_primary_events p;
          sev = first_match KEYWORDS_severity p SevModerate;
          dur = first_match KEYWORDS_duration p DurModerate;
          impacts = all_matches KEYWORDS_secondary_impacts_interpreter p;
          match_count = length events + length impacts
      in \<lparr>primary_events = (if events \<noteq> [] then events else [NoEvent]),
          sig_duration = dur,
          sig_severity = sev,
          secondary_impacts = impacts,
          sig_confidence = level_of_count match_count\<rparr>)"

section \<open>Signals to deltas\<close>

text \<open>The numeric part of the deltas dictionary; the description text is not modelled.\<close>

record deltas =
  aqi_delta :: real
  temperature_delta :: real
  hospital_load_delta :: real
  crop_supply_delta :: real

definition zero_deltas :: deltas where
  "zero_deltas =
     \<lparr>aqi_delta = 0, temperature_delta = 0, hospital_load_delta = 0, crop_supply_delta = 0\<rparr>"

definition severity_multiplier :: "severity \<Rightarrow> real" where
  "severity_multiplier s = (case s of SevLow \<Rightarrow> 0.5 | SevModerate \<Rightarrow> 1.0 | SevHigh \<Rightarrow> 1.5)"

definition duration_multiplier :: "duration \<Rightarrow> real" where
  "duration_multiplier d = (case d of DurShort \<Rightarrow> 0.8 | DurModerate \<Rightarrow> 1.0 | DurProlonged \<Rightarrow> 1.5)"

definition active_events :: "scenario_signals \<Rightarrow> event list" where
  "active_events signals =
     (if primary_events signals \<noteq> [NoEvent] then primary_events signals else [])"

subsection \<open>\<^verbatim>\<open>ScenarioSimulator.get_deltas\<close> (api/scenario\_interpreter.py)\<close>

text \<open>\<^verbatim>\<open>SCENARIO_CONFIG["base_impacts"]\<close>: aqi, temp, hospital, food; an event without
  a row reads as zeros.\<close>

definition base_impacts :: "event \<Rightarrow> real \<times> real \<times> real \<times> real" where
  "base_impacts e =
     (case e of
        Flood \<Rightarrow> (-10, -4, 12, -8)
      | Heatwave \<Rightarrow> (25, 5, 15, -10)
      | Pollution \<Rightarrow> (100, 1, 10, -2)
      | Drought \<Rightarrow> (15, 3, 8, -25)
      | Cyclone \<Rightarrow> (-15, -3, 20, -15)
      | NoEvent \<Rightarrow> (0, 0, 0, 0))"

text \<open>\<^verbatim>\<open>SCENARIO_CONFIG["secondary_impacts"]\<close>: hospital, food.\<close>

definition secondary_impact_row :: "impact \<Rightarrow> real \<times> real" where
  "secondary_impact_row i =
     (case i of
        TransportDisruption \<Rightarrow> (15, -5)
      | HospitalAccessReduction \<Rightarrow> (25, 0)
      | FoodSupplyDisruption \<Rightarrow> (0, -10)
      | _ \<Rightarrow> (0, 0))"

definition add_event :: "scenario_signals \<Rightarrow> deltas \<Rightarrow> event \<Rightarrow> deltas" where
  "add_event signals d e =
     (case base_impacts e of (aqi, temp, hospital, food) \<Rightarrow>
        d\<lparr>aqi_delta := aqi_delta d + aqi * severity_multiplier (sig_severity signals),
          temperature_delta := temperature_delta d +
            temp * (if sig_severity signals = SevHigh \<and> e = Heatwave then 1.2 else 1.0),
          hospital_load_delta := hospital_load_delta d +
            hospital * severity_multiplier (sig_severity signals) *
              duration_multiplier (sig_duration signals),
          crop_supply_delta := crop_supply_delta d +
            food * severity_multiplier (sig_severity signals) *
              duration_multiplier (sig_duration signals)\<rparr>)"

definition add_impact :: "deltas \<Rightarrow> impact \<Rightarrow> deltas" where
  "add_impact d i =
     (case secondary_impact_row i of (hospital, food) \<Rightarrow>
        d\<lparr>hospital_load_delta := hospital_load_delta d + hospital,
          crop_supply_delta := crop_supply_delta d + food\<rparr>)"

definition get_deltas :: "scenario_signals \<Rightarrow> deltas" where
  "get_deltas signals =
     foldl add_impact (foldl (add_event signals) zero_deltas (active_events signals))
       (secondary_impacts signals)"

subsection \<open>\<^verbatim>\<open>ScenarioDeltas.get_deltas_from_signals\<close> (api/scenario\_deltas.py)\<close>

text \<open>The class defines the method twice; the second definition is the one in force.
  Each event has its own hard-coded rule.\<close>

definition add_event_deltas :: "scenario_signals \<Rightarrow> deltas \<Rightarrow> event \<Rightarrow> deltas" where
  "add_event_deltas signals d primary =
     (let sev_mult = severity_multiplier (sig_severity signals);
          dur_mult = duration_multiplier (sig_duration signals)
      in case primary of
           Flood \<Rightarrow>
             d\<lparr>aqi_delta := aqi_delta d + -10 * sev_mult,
               temperature_delta := temperature_delta d + -4 * sev_mult,
               hospital_load_delta := hospital_load_delta d + 12 * sev_mult * dur_mult,
               crop_supply_delta := crop_supply_delta d + -8 * sev_mult * dur_mult\<rparr>
         | Heatwave \<Rightarrow>
             d\<lparr>aqi_delta := aqi_delta d + 25 * sev_mult,
               temperature_delta := temperature_delta d +
                 5 * (if sig_severity signals = SevHigh then 1.2 else 1.0),
               hospital_load_delta := hospital_load_delta d + 15 * sev_mult * dur_mult,
               crop_supply_delta := crop_supply_delta d + -10 * dur_mult\<rparr>
         | Pollution \<Rightarrow>
             d\<lparr>aqi_delta := aqi_delta d + 100 * sev_mult,
               temperature_delta := temperature_delta d + 1,
               hospital_load_delta := hospital_load_delta d + 10 * sev_mult,
               crop_supply_delta := crop_supply_delta d + -2\<rparr>
         | Drought \<Rightarrow>
             d\<lparr>aqi_delta := aqi_delta d + 15 * sev_mult,
               temperature_delta := temperature_delta d + 3,
               hospital_load_delta := hospital_load_delta d + 8 * dur_mult,
               crop_supply_delta := crop_supply_delta d + -25 * dur_mult\<rparr>
         | Cyclone \<Rightarrow>
             d\<lparr>aqi_delta := aqi_delta d + -15 * sev_mult,
               temperature_delta := temperature_delta d + -3,
               hospital_load_delta := hospital_load_delta d + 20 * sev_mult,
               crop_supply_delta := crop_supply_delta d + -15 * sev_mult\<rparr>
         | NoEvent \<Rightarrow> d)"

definition secondary_addons :: "scenario_signals \<Rightarrow> deltas \<Rightarrow> deltas" where
  "secondary_addons signals d =
     (let d1 = (if TransportDisruption \<in> set (secondary_impacts signals)
                then d\<lparr>crop_supply_delta := crop_supply_delta d - 5,
                       hospital_load_delta := hospital_load_delta d + 15\<rparr>
                else d);
          d2 = (if HospitalAccessReduction \<in> set (secondary_impacts signals)
                then d1\<lparr>hospital_load_delta := hospital_load_delta d1 + 25\<rparr>
                else d1)
      in if FoodSupplyDisruption \<in> set (secondary_impacts signals)
         then d2\<lparr>crop_supply_delta := crop_supply_delta d2 - 10\<rparr>
         else d2)"

definition get_deltas_from_signals :: "scenario_signals \<Rightarrow> deltas" where
  "get_deltas_from_signals signals =
     secondary_addons signals (foldl (add_event_deltas signals) zero_deltas (active_events signals))"

section \<open>The specification's formulas\<close>


text \<open>The delta rule as the specification words it: the base impact table, the
  severity multiplier on every component but temperature, the duration multiplier on
  hospital and food only, the temperature bonus for a heatwave at high severity, the
  sum over the primary events, and one fixed row per secondary impact.\<close>

definition spec_base_row :: "event \<Rightarrow> real \<times> real \<times> real \<times> real" where
  "spec_base_row e =
     (if e = Flood then (-10, -4, 12, -8)
      else if e = Heatwave then (25, 5, 15, -10)
      else if e = Pollution then (100, 1, 10, -2)
      else if e = Drought then (15, 3, 8, -25)
      else if e = Cyclone then (-15, -3, 20, -15)
      else (0, 0, 0, 0))"

definition spec_secondary_row :: "impact \<Rightarrow> real \<times> real" where
  "spec_secondary_row i =
     (if i = TransportDisruption then (15, -5)
      else if i = HospitalAccessReduction then (25, 0)
      else if i = FoodSupplyDisruption then (0, -10)
      else (0, 0))"

definition spec_event_contribution :: "severity \<Rightarrow> duration \<Rightarrow> event \<Rightarrow> real \<times> real \<times> real \<times> real" where
  "spec_event_contribution sev dur e =
     (case spec_base_row e of (aqi, temp, hospital, food) \<Rightarrow>
        (aqi * severity_multiplier sev,
         (if e = Heatwave \<and> sev = SevHigh then temp * 1.2 else temp),
         hospital * severity_multiplier sev * duration_multiplier dur,
         food * severity_multiplier sev * duration_multiplier dur))"

definition spec_deltas :: "scenario_signals \<Rightarrow> deltas" where
  "spec_deltas signals =
     (let rows = map (spec_event_contribution (sig_severity signals) (sig_duration signals))
                   (active_events signals);
          extra = map spec_secondary_row (secondary_impacts signals)
      in \<lparr>aqi_delta = sum_list (map (\<lambda>(a, t, h, f). a) rows),
          temperature_delta = sum_list (map (\<lambda>(a, t, h, f). t) rows),
          hospital_load_delta = sum_list (map (\<lambda>(a, t, h, f). h) rows) + sum_list (map fst extra),
          crop_supply_delta = sum_list (map (\<lambda>(a, t, h, f). f) rows) + sum_list (map snd extra)\<rparr>)"

section \<open>Sample inputs\<close>

text \<open>A parser that accepts no string, three fixed classifier answers, and an engine
  built from them.\<close>

definition no_parse :: "string \<Rightarrow> pyfloat option" where
  "no_parse s = None"

definition sample_env_result :: model_result where
  "sample_env_result =
     \<lparr>mr_class = ''low'', mr_low = 0.7, mr_medium = 0.2, mr_high = 0.1, mr_confidence = 0.7\<rparr>"

definition sample_health_result :: model_result where
  "sample_health_result =
     \<lparr>mr_class = ''medium'', mr_low = 0.3, mr_medium = 0.45, mr_high = 0.25,
      mr_confidence = 0.45\<rparr>"

definition sample_food_result :: model_result where
  "sample_food_result =
     \<lparr>mr_class = ''high'', mr_low = 0.1, mr_medium = 0.19, mr_high = 0.71,
      mr_confidence = 0.71\<rparr>"

definition sample_engine :: engine where
  "sample_engine =
     \<lparr>is_trained = True,
      env_model = (\<lambda>X. Inr sample_env_result),
      health_model = (\<lambda>X. Inr sample_health_result),
      food_model = (\<lambda>X. Inr sample_food_result)\<rparr>"

definition sample_clock :: clock where
  "sample_clock =
     \<lparr>ck_current_time = 1000, ck_start_time = 1000, ck_confidence_now = 1000,
      ck_end_time = 1001, ck_record_now = 1001\<rparr>"

definition clock_at :: "real \<Rightarrow> clock" where
  "clock_at t =
     \<lparr>ck_current_time = t, ck_start_time = t, ck_confidence_now = t, ck_end_time = t,
      ck_record_now = t\<rparr>"

definition zero_observations :: manager where
  "zero_observations =
     init_manager
       \<lparr>environmental_state :=
          \<lparr>es_aqi = Some 0, es_temperature = Some 0, es_humidity = Some 0,
           es_timestamp = Some 990\<rparr>,
        health_state :=
          \<lparr>hs_hospital_load = Some 0, hs_respiratory_cases = Some 0, hs_timestamp = Some 900\<rparr>,
        food_state :=
          \<lparr>fs_price_volatility = Some 0, fs_supply_index = Some 0, fs_timestamp = None\<rparr>\<rparr>"

definition pollution_prolonged :: scenario_signals where
  "pollution_prolonged =
     \<lparr>primary_events = [Pollution], sig_duration = DurProlonged, sig_severity = SevModerate,
      secondary_impacts = [], sig_confidence = LevelHigh\<rparr>"

definition flood_crisis :: scenario_signals where
  "flood_crisis =
     \<lparr>primary_events = [Flood, Heatwave], sig_duration = DurProlonged, sig_severity = SevHigh,
      secondary_impacts = [TransportDisruption, HospitalAccessReduction],
      sig_confidence = LevelHigh\<rparr>"

section \<open>Signals to deltas: the two implementations against the specification\<close>

lemma add_event_fields:
  "aqi_delta (add_event s d e) =
     aqi_delta d + (\<lambda>(a, t, h, f). a) (spec_event_contribution (sig_severity s) (sig_duration s) e)"
  "temperature_delta (add_event s d e) =
     temperature_delta d + (\<lambda>(a, t, h, f). t) (spec_event_contribution (sig_severity s) (sig_duration s) e)"
  "hospital_load_delta (add_event s d e) =
     hospital_load_delta d + (\<lambda>(a, t, h, f). h) (spec_event_contribution (sig_severity s) (sig_duration s) e)"
  "crop_supply_delta (add_event s d e) =
     crop_supply_delta d + (\<lambda>(a, t, h, f). f) (spec_event_contribution (sig_severity s) (sig_duration s) e)"
  by (cases e; simp add: add_event_def base_impacts_def spec_event_contribution_def
        spec_base_row_def)+

lemma foldl_add_event_fields:
  "aqi_delta (foldl (add_event s) d es) =
     aqi_delta d + sum_list (map (\<lambda>(a, t, h, f). a) (map (spec_event_contribution (sig_severity s) (sig_duration s)) es))"
  "temperature_delta (foldl (add_event s) d es) =
     temperature_delta d + sum_list (map (\<lambda>(a, t, h, f). t) (map (spec_event_contribution (sig_severity s) (sig_duration s)) es))"
  "hospital_load_delta (foldl (add_event s) d es) =
     hospital_load_delta d + sum_list (map (\<lambda>(a, t, h, f). h) (map (spec_event_contribution (sig_severity s) (sig_duration s)) es))"
  "crop_supply_delta (foldl (add_event s) d es) =
     crop_supply_delta d + sum_list (map (\<lambda>(a, t, h, f). f) (map (spec_event_contribution (sig_severity s) (sig_duration s)) es))"
  by (induction es arbitrary: d; simp add: add_event_fields)+

lemma add_impact_fields:
  "aqi_delta (add_impact d i) = aqi_delta d"
  "temperature_delta (add_impact d i) = temperature_delta d"
  "hospital_load_delta (add_impact d i) = hospital_load_delta d + fst (spec_secondary_row i)"
  "crop_supply_delta (add_impact d i) = crop_supply_delta d + snd (spec_secondary_row i)"
  by (cases i; simp add: add_impact_def secondary_impact_row_def spec_secondary_row_def)+

lemma foldl_add_impact_fields:
  "aqi_delta (foldl add_impact d js) = aqi_delta d"
  "temperature_delta (foldl add_impact d js) = temperature_delta d"
  "hospital_load_delta (foldl add_impact d js) =
     hospital_load_delta d + sum_list (map fst (map spec_secondary_row js))"
  "crop_supply_delta (foldl add_impact d js) =
     crop_supply_delta d + sum_list (map snd (map spec_secondary_row js))"
  by (induction js arbitrary: d; simp add: add_impact_fields)+

lemma get_deltas_spec: "get_deltas s = spec_deltas s"
  by (rule deltas.equality)
     (simp_all add: get_deltas_def spec_deltas_def foldl_add_event_fields foldl_add_impact_fields
        zero_deltas_def Let_def)

lemma add_event_deltas_aqi:
  "aqi_delta (add_event_deltas s d e) =
     aqi_delta d + (\<lambda>(a, t, h, f). a) (spec_event_contribution (sig_severity s) (sig_duration s) e)"
  by (cases e; simp add: add_event_deltas_def spec_event_contribution_def spec_base_row_def Let_def)

lemma foldl_add_event_deltas_aqi:
  "aqi_delta (foldl (add_event_deltas s) d es) =
     aqi_delta d + sum_list (map (\<lambda>(a, t, h, f). a) (map (spec_event_contribution (sig_severity s) (sig_duration s)) es))"
  by (induction es arbitrary: d; simp add: add_event_deltas_aqi)

lemma secondary_addons_aqi: "aqi_delta (secondary_addons s d) = aqi_delta d"
  by (simp add: secondary_addons_def Let_def)

lemma get_deltas_from_signals_aqi:
  "aqi_delta (get_deltas_from_signals s) = aqi_delta (spec_deltas s)"
  by (simp add: get_deltas_from_signals_def secondary_addons_aqi foldl_add_event_deltas_aqi
        spec_deltas_def zero_deltas_def Let_def)

text \<open>
  C6, as the code has it. \<^verbatim>\<open>ScenarioSimulator.get_deltas\<close> computes exactly the
  rule of the specification: for every signals value, the sum over the primary events of the
  base row times the severity multiplier, with the duration multiplier on hospital and food
  only and the 1.2 bonus on the temperature of a heatwave at high severity, plus one fixed
  row per secondary impact. \<^verbatim>\<open>ScenarioDeltas.get_deltas_from_signals\<close>, the function
  behind the scenario endpoint, agrees with that rule on the AQI component.
\<close>

theorem get_deltas_compositional:
  "get_deltas signals = spec_deltas signals \<and>
   aqi_delta (get_deltas_from_signals signals) = aqi_delta (spec_deltas signals)"
  by (simp add: get_deltas_spec get_deltas_from_signals_aqi)

theorem get_deltas_compositional_witness:
  "get_deltas flood_crisis =
     \<lparr>aqi_delta = 22.5, temperature_delta = 2, hospital_load_delta = 100.75,
      crop_supply_delta = -45.5\<rparr> \<and>
   aqi_delta (get_deltas_from_signals flood_crisis) = 22.5"
  using get_deltas_compositional [of flood_crisis]
  by (simp add: spec_deltas_def flood_crisis_def active_events_def spec_event_contribution_def
        spec_base_row_def spec_secondary_row_def severity_multiplier_def
        duration_multiplier_def Let_def)

text \<open>
  C6 as stated fails on \<^verbatim>\<open>ScenarioDeltas.get_deltas_from_signals\<close>: for a pollution
  event of moderate severity and prolonged duration the hospital component is the bare base
  value 10, where the stated rule (base times severity times duration) gives 15.
\<close>

theorem get_deltas_from_signals_counterexample:
  "hospital_load_delta (get_deltas_from_signals pollution_prolonged) = 10 \<and>
   hospital_load_delta (spec_deltas pollution_prolonged) = 15"
  by (simp add: get_deltas_from_signals_def pollution_prolonged_def secondary_addons_def
        active_events_def add_event_deltas_def zero_deltas_def spec_deltas_def
        spec_event_contribution_def spec_base_row_def severity_multiplier_def
        duration_multiplier_def Let_def)

section \<open>Cascading inference\<close>

lemma domain_entry_keys:
  "domain_entry r ''risk'' = Some (DStr (mr_class r))"
  "domain_entry r ''prob'' = Some (DNum (mr_high r))"
  "domain_entry r ''probabilities'' = Some (DProbs (mr_low r) (mr_medium r) (mr_high r))"
  "domain_entry r ''risk_level'' = None"
  "domain_entry r ''high_prob'' = None"
  by (simp_all add: domain_entry_def)

text \<open>What a returned prediction is made of.\<close>

lemma predict_cascading_risks_InrE:
  assumes "predict_cascading_risks parse eng m = Inr r"
  obtains env h food a er hr fr where
    "is_trained eng"
    "preprocess_all_metrics parse m = Inr (env, h, food, a)"
    "env_model eng (env_features env) = Inr er"
    "health_model eng (health_features (h\<lparr>hm_environmental_risk_prob := Fin (mr_high er)\<rparr>)) = Inr hr"
    "food_model eng (food_features food) = Inr fr"
    "environmental r = domain_entry er"
    "health r = domain_entry hr"
    "food_security r = domain_entry fr"
    "resilience_score r = calculate_resilience_score (mr_high er) (mr_high hr) (mr_high fr)"
    "env_risk_injected_to_health r = mr_high er"
    "assumptions r = (if a = [] then None else Some a)"
  using assms
  by (auto simp: predict_cascading_risks_def bind_err_def Let_def
           split: if_splits sum.splits prod.splits)

lemma trunc_real_nonneg: "0 \<le> x \<Longrightarrow> trunc_real x = \<lfloor>x\<rfloor>"
  by (simp add: trunc_real_def)

lemma calculate_resilience_score_floor:
  "calculate_resilience_score pe ph pf =
     \<lfloor>max 0 (min 100 (100 * (1 - (0.35 * pe + 0.40 * ph + 0.25 * pf))))\<rfloor>"
  by (simp add: calculate_resilience_score_def RESILIENCE_WEIGHT_environmental_def
        RESILIENCE_WEIGHT_health_def RESILIENCE_WEIGHT_food_def Let_def trunc_real_nonneg)




text \<open>The sample engine on the empty metric bag: every field takes its default.\<close>

lemma preprocess_empty:
  "preprocess_all_metrics no_parse Map.empty =
     Inr (\<lparr>em_aqi = Fin 100, em_traffic_density = 1, em_temperature = Fin 30, em_rainfall = Fin 20\<rparr>,
          \<lparr>hm_aqi = Fin 100, hm_hospital_load = Fin 0.65, hm_respiratory_cases = 200,
            hm_temperature = Fin 30, hm_environmental_risk_prob = Fin 0.5\<rparr>,
          \<lparr>fm_crop_supply_index = Fin 75, fm_food_price_index = Fin 100, fm_rainfall = Fin 40,
            fm_temperature = Fin 30, fm_supply_disruption_events = 1\<rparr>,
          [AqiAdjusted PNone (Fin 100)])"
  by (simp add: preprocess_all_metrics_def preprocess_environmental_metrics_def
        preprocess_health_metrics_def preprocess_food_metrics_def float_field_def
        temperature_field_def int_field_def catch_tv_def bind_err_def py_float_def
        handle_missing_def metrics_get_def clip_to_range_def clip_to_range_int_def
        trunc_real_def round_half_even_def Let_def)

lemma predict_sample_engine:
  assumes "preprocess_all_metrics parse m = Inr (e, h, f, a)"
  shows "predict_cascading_risks parse sample_engine m =
     Inr \<lparr>environmental = domain_entry sample_env_result,
          health = domain_entry sample_health_result,
          food_security = domain_entry sample_food_result,
          resilience_score = 68,
          confidence =
            \<lparr>conf_environmental = calculate_confidence (probs_of sample_env_result),
             conf_health = calculate_confidence (probs_of sample_health_result),
             conf_food_security = calculate_confidence (probs_of sample_food_result)\<rparr>,
          env_risk_injected_to_health = 0.1,
          assumptions = (if a = [] then None else Some a)\<rparr>"
  using assms
  by (simp add: predict_cascading_risks_def bind_err_def sample_engine_def Let_def
        calculate_resilience_score_floor sample_env_result_def sample_health_result_def
        sample_food_result_def)




text \<open>
  C9. For every prediction returned by \<^verbatim>\<open>predict_cascading_risks\<close>, the reported
  cascade value \<^verbatim>\<open>env_risk_injected_to_health\<close> is the environmental probability of
  high of that prediction, and the health entry is the answer of the health classifier on
  the preprocessed health row whose fifth feature, \<^verbatim>\<open>environmental_risk_prob\<close>, is that
  same value.
\<close>

theorem cascade_echo:
  assumes "predict_cascading_risks parse eng m = Inr r"
  shows "environmental r ''prob'' = Some (DNum (env_risk_injected_to_health r)) \<and>
         (\<exists>env h food a hr.
            preprocess_all_metrics parse m = Inr (env, h, food, a) \<and>
            health_model eng
              (health_features
                 (h\<lparr>hm_environmental_risk_prob := Fin (env_risk_injected_to_health r)\<rparr>)) = Inr hr \<and>
            health_features
              (h\<lparr>hm_environmental_risk_prob := Fin (env_risk_injected_to_health r)\<rparr>) ! 4 =
              Fin (env_risk_injected_to_health r) \<and>
            health r = domain_entry hr)"
  using assms
  by (elim predict_cascading_risks_InrE) (auto simp: domain_entry_keys health_features_def)

theorem cascade_echo_witness:
  "\<exists>r. predict_cascading_risks no_parse sample_engine Map.empty = Inr r \<and>
       env_risk_injected_to_health r = 0.1 \<and>
       environmental r ''prob'' = Some (DNum (env_risk_injected_to_health r))"
proof -
  note p = predict_sample_engine [OF preprocess_empty]
  from cascade_echo [OF p]
  have "environmental (projr (predict_cascading_risks no_parse sample_engine Map.empty)) ''prob'' =
          Some (DNum (env_risk_injected_to_health
                        (projr (predict_cascading_risks no_parse sample_engine Map.empty))))"
    by (simp add: p)
  then show ?thesis
    by (simp add: p)
qed

section \<open>The threshold override\<close>

lemma preprocess_extreme_inputs:
  "\<exists>e h f a.
     preprocess_all_metrics no_parse [''aqi'' \<mapsto> PInt 350, ''crop_supply_index'' \<mapsto> PInt 20] =
       Inr (e, h, f, a)"
  by (simp add: preprocess_all_metrics_def preprocess_environmental_metrics_def
        preprocess_health_metrics_def preprocess_food_metrics_def float_field_def
        temperature_field_def int_field_def catch_tv_def bind_err_def py_float_def
        handle_missing_def metrics_get_def clip_to_range_def clip_to_range_int_def
        trunc_real_def round_half_even_def Let_def)

text \<open>
  C3, as the code has it. The override lives in the single-domain engine:
  \<^verbatim>\<open>RiskEngine.predict_environmental\<close> called with \<open>aqi > 300\<close> returns the pinned
  distribution (low 0.02, medium 0.08, high 0.90) with class high and confidence 0.99, and
  \<^verbatim>\<open>RiskEngine.predict_food_security\<close> called with \<open>crop_supply_index < 30\<close> returns
  (low 0.01, medium 0.04, high 0.95) with class high and confidence 0.99, whatever the
  engine's classifiers are or would answer.
\<close>

theorem threshold_override:
  "(pf_less (Fin 300) aqi \<longrightarrow>
      predict_environmental eng aqi traffic_density temperature rainfall =
        Inr \<lparr>rp_risk_class = ''high'', rp_low = 0.02, rp_medium = 0.08, rp_high = 0.90,
             rp_confidence = 0.99\<rparr>) \<and>
   (pf_less crop_supply_index (Fin 30) \<longrightarrow>
      predict_food_security eng crop_supply_index food_price_index rainfall' temperature'
          supply_disruption_events =
        Inr \<lparr>rp_risk_class = ''high'', rp_low = 0.01, rp_medium = 0.04, rp_high = 0.95,
             rp_confidence = 0.99\<rparr>)"
  by (simp add: predict_environmental_def predict_food_security_def)

theorem threshold_override_witness:
  "predict_environmental sample_engine (Fin 350) 1 (Fin 30) (Fin 20) =
        Inr \<lparr>rp_risk_class = ''high'', rp_low = 0.02, rp_medium = 0.08, rp_high = 0.90,
             rp_confidence = 0.99\<rparr> \<and>
   predict_food_security sample_engine (Fin 20) (Fin 100) (Fin 40) (Fin 30) 1 =
        Inr \<lparr>rp_risk_class = ''high'', rp_low = 0.01, rp_medium = 0.04, rp_high = 0.95,
             rp_confidence = 0.99\<rparr>"
  using threshold_override
          [of "Fin 350" sample_engine 1 "Fin 30" "Fin 20" "Fin 20" "Fin 100" "Fin 40" "Fin 30" 1]
  by simp

text \<open>
  C3 as stated fails on the cascading engine, which has no override: on the metric bag
  with \<open>aqi = 350\<close> and \<open>crop_supply_index = 20\<close> the prediction carries the
  classifiers' own answers (here class low with distribution 0.7, 0.2, 0.1 for the
  environment), not the pinned distributions.
\<close>

theorem cascading_no_override_counterexample:
  "map_sum id (\<lambda>r. (environmental r ''risk'', environmental r ''probabilities'',
                     food_security r ''probabilities''))
     (predict_cascading_risks no_parse sample_engine
        [''aqi'' \<mapsto> PInt 350, ''crop_supply_index'' \<mapsto> PInt 20]) =
     Inr (Some (DStr ''low''), Some (DProbs 0.7 0.2 0.1), Some (DProbs 0.1 0.19 0.71))"
proof -
  from preprocess_extreme_inputs obtain e h f a where
    "preprocess_all_metrics no_parse [''aqi'' \<mapsto> PInt 350, ''crop_supply_index'' \<mapsto> PInt 20] =
       Inr (e, h, f, a)"
    by blast
  from predict_sample_engine [OF this] show ?thesis
    by (simp add: domain_entry_keys sample_env_result_def sample_health_result_def
        sample_food_result_def)
qed

section \<open>The real-time state manager: freshness, defaults, rate gate, records\<close>




text \<open>
  C10. \<^verbatim>\<open>get_merged_state\<close> puts the default in place of every falsy stored field: an
  observed aqi, temperature, hospital load, respiratory case count, price volatility or
  supply index of zero is replaced by 100, 25, 0.5, 100, 0.1 and 80, so none of these fields
  is ever zero in the merged state or in the metric bag handed to inference.
\<close>

theorem merged_state_defaults:
  "(es_aqi (environmental_state s) = Some 0 \<longrightarrow> ms_aqi (get_merged_state now s) = 100) \<and>
   (es_temperature (environmental_state s) = Some 0 \<longrightarrow> ms_temperature (get_merged_state now s) = 25) \<and>
   (hs_hospital_load (health_state s) = Some 0 \<longrightarrow> ms_hospital_load (get_merged_state now s) = 0.5) \<and>
   (hs_respiratory_cases (health_state s) = Some 0 \<longrightarrow>
      ms_respiratory_cases (get_merged_state now s) = 100) \<and>
   (fs_price_volatility (food_state s) = Some 0 \<longrightarrow>
      ms_price_volatility (get_merged_state now s) = 0.1) \<and>
   (fs_supply_index (food_state s) = Some 0 \<longrightarrow> ms_crop_supply_index (get_merged_state now s) = 80) \<and>
   ms_aqi (get_merged_state now s) \<noteq> 0 \<and>
   ms_temperature (get_merged_state now s) \<noteq> 0 \<and>
   ms_hospital_load (get_merged_state now s) \<noteq> 0 \<and>
   ms_respiratory_cases (get_merged_state now s) \<noteq> 0 \<and>
   ms_price_volatility (get_merged_state now s) \<noteq> 0 \<and>
   ms_crop_supply_index (get_merged_state now s) \<noteq> 0 \<and>
   inference_metrics (get_merged_state now s) ''aqi'' \<noteq> Some (PFloat (Fin 0)) \<and>
   inference_metrics (get_merged_state now s) ''temperature'' \<noteq> Some (PFloat (Fin 0)) \<and>
   inference_metrics (get_merged_state now s) ''respiratory_cases'' \<noteq> Some (PInt 0) \<and>
   inference_metrics (get_merged_state now s) ''price_volatility'' \<noteq> Some (PFloat (Fin 0)) \<and>
   inference_metrics (get_merged_state now s) ''crop_supply_index'' \<noteq> Some (PFloat (Fin 0))"
  by (simp add: get_merged_state_def py_or_def inference_metrics_def split: option.splits)

theorem merged_state_defaults_witness:
  "ms_aqi (get_merged_state 1000 zero_observations) = 100 \<and>
   ms_temperature (get_merged_state 1000 zero_observations) = 25 \<and>
   ms_hospital_load (get_merged_state 1000 zero_observations) = 0.5 \<and>
   ms_respiratory_cases (get_merged_state 1000 zero_observations) = 100 \<and>
   ms_price_volatility (get_merged_state 1000 zero_observations) = 0.1 \<and>
   ms_crop_supply_index (get_merged_state 1000 zero_observations) = 80"
  using merged_state_defaults [of zero_observations 1000]
  by (simp add: zero_observations_def init_manager_def)

lemma run_inference_rejected:
  "gate_rejects s (ck_current_time ck) \<Longrightarrow> run_inference e ck s = (None, s)"
  by (simp add: run_inference_def)

lemma last_inference_time_run_inference:
  "last_inference_time (snd (run_inference e ck s)) =
     (if gate_rejects s (ck_current_time ck) then last_inference_time s else ck_current_time ck)"
  by (simp add: run_inference_def Let_def split: sum.splits)

lemma executed_times_chain:
  "successively (\<lambda>a b. a + 1 / 2 \<le> b) (last_inference_time s # executed_times e s cks)"
proof (induction cks arbitrary: s)
  case Nil
  show ?case by simp
next
  case (Cons ck cks)
  show ?case
  proof (cases "gate_rejects s (ck_current_time ck)")
    case True
    with Cons.IH [of s] show ?thesis
      by (simp add: run_inference_rejected)
  next
    case False
    with Cons.IH [of "snd (run_inference e ck s)"] show ?thesis
      by (simp add: last_inference_time_run_inference gate_rejects_def MAX_INFERENCE_RATE_def)
  qed
qed

lemma spaced_window:
  assumes "successively (\<lambda>a b. a + 1 / 2 \<le> b) (ts :: real list)"
  shows "length (filter (\<lambda>t. a \<le> t \<and> t < a + 1) ts) \<le> 2"
proof -
  have tr: "transp (\<lambda>a b :: real. a + 1 / 2 \<le> b)"
    by (rule transpI) simp
  from assms have "sorted_wrt (\<lambda>a b. a + 1 / 2 \<le> b) ts"
    by (simp add: successively_iff_sorted_wrt_strong tr successively_conv_sorted_wrt)
  then have sw: "sorted_wrt (\<lambda>a b. a + 1 / 2 \<le> b) (filter (\<lambda>t. a \<le> t \<and> t < a + 1) ts)"
    by (rule sorted_wrt_filter)
  show ?thesis
  proof (rule ccontr)
    assume "\<not> ?thesis"
    then obtain x y z rest where f: "filter (\<lambda>t. a \<le> t \<and> t < a + 1) ts = x # y # z # rest"
      by (cases "filter (\<lambda>t. a \<le> t \<and> t < a + 1) ts" rule: list.exhaust;
          simp; metis Suc_le_length_iff length_Cons list.size(3) not_less_eq_eq numeral_2_eq_2 neq_Nil_conv le0)
    from sw f have "x + 1 / 2 \<le> y" "y + 1 / 2 \<le> z" by simp_all
    moreover have "x \<in> set (filter (\<lambda>t. a \<le> t \<and> t < a + 1) ts)"
      "z \<in> set (filter (\<lambda>t. a \<le> t \<and> t < a + 1) ts)" using f by simp_all
    then have "a \<le> x" "z < a + 1" by simp_all
    ultimately show False by simp
  qed
qed

lemma successively_tl: "successively P (x # xs) \<Longrightarrow> successively P xs"
  by (cases xs) simp_all

text \<open>
  C4. The gate rejects a call exactly when its clock reading is less than 0.5 seconds
  after the stamp of the last call that got past the gate; a rejected call returns no
  prediction and leaves the whole state, the rolling history included, as it was; a call
  that gets past stamps its reading. So, for every sequence of calls, consecutive executed
  inferences are at least 0.5 seconds apart, and any window \<open>[a, a + 1)\<close> of one second
  holds at most two of them.
\<close>

theorem rate_gate:
  "(gate_rejects s (ck_current_time ck) \<longleftrightarrow> ck_current_time ck - last_inference_time s < 1 / 2) \<and>
   (gate_rejects s (ck_current_time ck) \<longrightarrow> run_inference e ck s = (None, s)) \<and>
   (\<not> gate_rejects s (ck_current_time ck) \<longrightarrow>
      last_inference_time (snd (run_inference e ck s)) = ck_current_time ck) \<and>
   successively (\<lambda>a b. a + 1 / 2 \<le> b) (executed_times e s cks) \<and>
   (\<forall>a. length (filter (\<lambda>t. a \<le> t \<and> t < a + 1) (executed_times e s cks)) \<le> 2)"
proof -
  have c: "successively (\<lambda>a b. a + 1 / 2 \<le> b) (executed_times e s cks)"
    using executed_times_chain [of s e cks] by (rule successively_tl)
  show ?thesis
    by (simp add: c spaced_window run_inference_rejected last_inference_time_run_inference)
       (simp add: gate_rejects_def MAX_INFERENCE_RATE_def)
qed


lemma executed_times_sample:
  "executed_times e init_manager (map clock_at [1000, 1000.1, 1000.5, 1000.9, 1001.2]) =
     [1000, 1000.5, 1001.2]"
  by (simp add: last_inference_time_run_inference gate_rejects_def MAX_INFERENCE_RATE_def
        clock_at_def init_manager_def)

theorem rate_gate_witness:
  "run_inference (predict_cascading_risks no_parse sample_engine) (clock_at 0.2) init_manager =
     (None, init_manager) \<and>
   executed_times (predict_cascading_risks no_parse sample_engine) init_manager
     (map clock_at [1000, 1000.1, 1000.5, 1000.9, 1001.2]) = [1000, 1000.5, 1001.2] \<and>
   length (filter (\<lambda>t. 1000 \<le> t \<and> t < 1000 + 1)
     (executed_times (predict_cascading_risks no_parse sample_engine) init_manager
        (map clock_at [1000, 1000.1, 1000.5, 1000.9, 1001.2]))) \<le> 2"
proof -
  note th = rate_gate [of init_manager "clock_at 0.2"
      "predict_cascading_risks no_parse sample_engine"
      "map clock_at [1000, 1000.1, 1000.5, 1000.9, 1001.2]"]
  have g: "gate_rejects init_manager (ck_current_time (clock_at 0.2))"
    by (simp add: gate_rejects_def MAX_INFERENCE_RATE_def clock_at_def init_manager_def)
  from th g have
    "run_inference (predict_cascading_risks no_parse sample_engine) (clock_at 0.2) init_manager =
     (None, init_manager)" by blast
  moreover from th have
    "length (filter (\<lambda>t. 1000 \<le> t \<and> t < 1000 + 1)
     (executed_times (predict_cascading_risks no_parse sample_engine) init_manager
        (map clock_at [1000, 1000.1, 1000.5, 1000.9, 1001.2]))) \<le> 2" by blast
  ultimately show ?thesis
    by (simp only: executed_times_sample)
qed

lemma make_record_cascade:
  assumes "predict_cascading_risks parse eng m = Inr result"
  shows "make_record result c ms now =
     Inr \<lparr>pr_timestamp = now,
          pr_environmental_risk = ''medium'', pr_environmental_prob = 0.5,
          pr_health_risk = ''low'', pr_health_prob = 0.2,
          pr_food_security_risk = ''low'', pr_food_security_prob = 0.1,
          pr_confidence = c, pr_inference_time_ms = ms\<rparr>"
  using assms
  by (elim predict_cascading_risks_InrE)
     (simp add: make_record_def get_str_def get_num_def bind_err_def domain_entry_keys)

lemma get_confidence_stamp:
  "get_confidence now (s\<lparr>last_inference_time := t\<rparr>) = get_confidence now s"
  by (simp add: get_confidence_def)

text \<open>
  C2, what the code does. \<^verbatim>\<open>run_inference\<close> reads the keys \<^verbatim>\<open>risk_level\<close> and
  \<^verbatim>\<open>high_prob\<close>, which the cascading engine never writes (it writes \<^verbatim>\<open>risk\<close> and
  \<^verbatim>\<open>prob\<close>). So every record it appends carries the fixed fallbacks (medium 0.5,
  low 0.2, low 0.1), whatever the cascading inference computed; only the confidence field
  is as claimed, the data-freshness confidence of the state.
\<close>

theorem run_inference_record:
  assumes "run_inference (predict_cascading_risks parse eng) ck s = (Some r, s')"
  shows "pr_environmental_risk r = ''medium'' \<and> pr_environmental_prob r = 0.5 \<and>
         pr_health_risk r = ''low'' \<and> pr_health_prob r = 0.2 \<and>
         pr_food_security_risk r = ''low'' \<and> pr_food_security_prob r = 0.1 \<and>
         pr_confidence r = get_confidence (ck_confidence_now ck) s \<and>
         prediction_history s' = deque_append (prediction_history s) r"
  using assms
  by (auto simp: run_inference_def Let_def bind_err_def make_record_cascade
        get_merged_state_def get_confidence_stamp
      split: if_splits sum.splits)

lemma preprocess_merged_init:
  "\<exists>e h f a. preprocess_all_metrics no_parse
      (inference_metrics (get_merged_state 1000 (init_manager\<lparr>last_inference_time := 1000\<rparr>))) =
       Inr (e, h, f, a)"
  by (simp add: preprocess_all_metrics_def preprocess_environmental_metrics_def
        preprocess_health_metrics_def preprocess_food_metrics_def float_field_def
        temperature_field_def int_field_def catch_tv_def bind_err_def py_float_def
        handle_missing_def metrics_get_def clip_to_range_def clip_to_range_int_def
        trunc_real_def round_half_even_def Let_def inference_metrics_def get_merged_state_def
        init_manager_def py_or_def)

lemma run_inference_sample:
  "fst (run_inference (predict_cascading_risks no_parse sample_engine) sample_clock init_manager) =
     Some \<lparr>pr_timestamp = 1001,
          pr_environmental_risk = ''medium'', pr_environmental_prob = 0.5,
          pr_health_risk = ''low'', pr_health_prob = 0.2,
          pr_food_security_risk = ''low'', pr_food_security_prob = 0.1,
          pr_confidence = 0.5, pr_inference_time_ms = 1000\<rparr>"
proof -
  from preprocess_merged_init obtain e h f a where
    "preprocess_all_metrics no_parse
      (inference_metrics (get_merged_state 1000 (init_manager\<lparr>last_inference_time := 1000\<rparr>))) =
       Inr (e, h, f, a)" by blast
  note p = predict_sample_engine [OF this]
  have c: "get_confidence 1000 (init_manager\<lparr>last_inference_time := 1000\<rparr>) = 0.5"
    by (simp add: get_confidence_def slot_confidence_def init_manager_def)
  have m: "ms_confidence (get_merged_state 1000 (init_manager\<lparr>last_inference_time := 1000\<rparr>)) = 0.5"
    by (simp add: get_merged_state_def c)
  have g: "\<not> gate_rejects init_manager 1000"
    by (simp add: gate_rejects_def MAX_INFERENCE_RATE_def init_manager_def)
  show ?thesis
    by (simp add: run_inference_def sample_clock_def g Let_def p m bind_err_def
          make_record_cascade [OF p])
qed

theorem run_inference_record_witness:
  "\<exists>r s'. run_inference (predict_cascading_risks no_parse sample_engine) sample_clock
             init_manager = (Some r, s') \<and>
          pr_environmental_risk r = ''medium'' \<and> pr_environmental_prob r = 0.5 \<and>
          pr_confidence r = 0.5"
proof -
  obtain x s' where rs:
    "run_inference (predict_cascading_risks no_parse sample_engine) sample_clock init_manager =
       (x, s')"
    by (cases "run_inference (predict_cascading_risks no_parse sample_engine) sample_clock
                 init_manager")
  with run_inference_sample obtain r where x: "x = Some r" and c: "pr_confidence r = 0.5"
    by simp
  from run_inference_record [OF rs [unfolded x]]
  have "pr_environmental_risk r = ''medium'' \<and> pr_environmental_prob r = 0.5"
    by blast
  with rs x c show ?thesis
    by blast
qed

text \<open>The answer of the cascading engine on that same merged state: class low with
  probability of high 0.1 for the environment, which the record above does not carry.\<close>

lemma cascade_on_merged_init:
  "map_sum id (\<lambda>r. (environmental r ''risk'', environmental r ''prob''))
     (predict_cascading_risks no_parse sample_engine
        (inference_metrics (get_merged_state 1000 (init_manager\<lparr>last_inference_time := 1000\<rparr>)))) =
     Inr (Some (DStr ''low''), Some (DNum 0.1))"
proof -
  from preprocess_merged_init obtain e h f a where
    "preprocess_all_metrics no_parse
      (inference_metrics (get_merged_state 1000 (init_manager\<lparr>last_inference_time := 1000\<rparr>))) =
       Inr (e, h, f, a)" by blast
  from predict_sample_engine [OF this] show ?thesis
    by (simp add: domain_entry_keys sample_env_result_def)
qed

section \<open>Preprocessing failures\<close>

text \<open>
  C5, where the code fails. Preprocessing is not total: the handlers catch
  \<^verbatim>\<open>TypeError\<close> and \<^verbatim>\<open>ValueError\<close> only, and an infinite value in a field that is
  converted to an int, or an int beyond the double range in any field, raises
  \<^verbatim>\<open>OverflowError\<close> out of \<^verbatim>\<open>preprocess_all_metrics\<close>.
\<close>

theorem preprocess_overflow:
  "preprocess_all_metrics parse [''traffic_density'' \<mapsto> PFloat PosInf] = Inl OverflowError \<and>
   preprocess_all_metrics parse [''respiratory_cases'' \<mapsto> PFloat PosInf] = Inl OverflowError \<and>
   preprocess_all_metrics parse [''aqi'' \<mapsto> PInt (2 ^ 1024)] = Inl OverflowError"
  by (simp add: preprocess_all_metrics_def preprocess_environmental_metrics_def
        preprocess_health_metrics_def preprocess_food_metrics_def float_field_def
        temperature_field_def int_field_def catch_tv_def bind_err_def py_float_def
        handle_missing_def metrics_get_def clip_to_range_def clip_to_range_int_def
        trunc_real_def round_half_even_def Let_def)

section \<open>Extraction confidence\<close>

lemma all_matches_subset: "set (all_matches table p) \<subseteq> fst ` set table"
  by (auto simp: all_matches_def)

lemma primary_matches_not_none: "all_matches KEYWORDS_primary_events p \<noteq> [NoEvent]"
proof
  assume "all_matches KEYWORDS_primary_events p = [NoEvent]"
  then have "NoEvent \<in> set (all_matches KEYWORDS_primary_events p)" by simp
  with all_matches_subset [of KEYWORDS_primary_events p]
  have "NoEvent \<in> fst ` set KEYWORDS_primary_events" by blast
  then show False by (simp add: KEYWORDS_primary_events_def)
qed

lemma extract_signals_fields:
  "primary_events (extract_signals prompt) =
     (if all_matches KEYWORDS_primary_events (lower prompt) \<noteq> []
      then all_matches KEYWORDS_primary_events (lower prompt) else [NoEvent])"
  "secondary_impacts (extract_signals prompt) =
     all_matches KEYWORDS_secondary_impacts_interpreter (lower prompt)"
  "sig_confidence (extract_signals prompt) =
     level_of_count (length (all_matches KEYWORDS_primary_events (lower prompt)) +
                     length (all_matches KEYWORDS_secondary_impacts_interpreter (lower prompt)))"
  by (simp_all add: extract_signals_def Let_def)

lemma extract_scenario_signals_fields:
  "primary_events (extract_scenario_signals prompt) =
     (if all_matches KEYWORDS_primary_events (lower prompt) \<noteq> []
      then all_matches KEYWORDS_primary_events (lower prompt) else [NoEvent])"
  "secondary_impacts (extract_scenario_signals prompt) =
     all_matches KEYWORDS_secondary_impacts (lower prompt)"
  "sig_severity (extract_scenario_signals prompt) =
     first_match KEYWORDS_severity (lower prompt) SevModerate"
  "sig_confidence (extract_scenario_signals prompt) =
     level_of_count (length (all_matches KEYWORDS_primary_events (lower prompt)) +
                     length (all_matches KEYWORDS_secondary_impacts (lower prompt)) +
                     (if first_match KEYWORDS_severity (lower prompt) SevModerate \<noteq> SevModerate
                      then 1 else 0))"
  by (simp_all add: extract_scenario_signals_def Let_def)

lemma match_count_fields:
  "(if (if ms \<noteq> [] then ms else [NoEvent]) = [NoEvent] then 0
    else length (if ms \<noteq> [] then ms else [NoEvent])) =
   (if ms = [NoEvent] then 0 else length ms)"
  by simp

text \<open>
  C7, as the code has it. For every prompt, the confidence of
  \<^verbatim>\<open>ScenarioInterpreter.extract_signals\<close> is high when at least two matches are found
  across the primary events and the secondary impacts, medium when exactly one, low
  otherwise, and it is the same for two prompts with the same events and impacts, whatever
  their severity and duration words. \<^verbatim>\<open>ScenarioDeltas.extract_scenario_signals\<close>, the
  extractor behind the scenario endpoint, counts one more match when the severity found is
  not moderate; the duration never counts.
\<close>

theorem extraction_confidence:
  "sig_confidence (extract_signals prompt) =
     (let n = (if primary_events (extract_signals prompt) = [NoEvent] then 0
               else length (primary_events (extract_signals prompt))) +
              length (secondary_impacts (extract_signals prompt))
      in if 2 \<le> n then LevelHigh else if n = 1 then LevelMedium else LevelLow) \<and>
   sig_confidence (extract_scenario_signals prompt) =
     (let n = (if primary_events (extract_scenario_signals prompt) = [NoEvent] then 0
               else length (primary_events (extract_scenario_signals prompt))) +
              length (secondary_impacts (extract_scenario_signals prompt)) +
              (if sig_severity (extract_scenario_signals prompt) \<noteq> SevModerate then 1 else 0)
      in if 2 \<le> n then LevelHigh else if n = 1 then LevelMedium else LevelLow) \<and>
   (\<forall>q. primary_events (extract_signals q) = primary_events (extract_signals prompt) \<and>
        secondary_impacts (extract_signals q) = secondary_impacts (extract_signals prompt) \<longrightarrow>
        sig_confidence (extract_signals q) = sig_confidence (extract_signals prompt))"
proof -
  have a: "\<And>p. sig_confidence (extract_signals p) =
     level_of_count ((if primary_events (extract_signals p) = [NoEvent] then 0
               else length (primary_events (extract_signals p))) +
              length (secondary_impacts (extract_signals p)))"
    by (simp add: extract_signals_fields primary_matches_not_none)
  have b: "sig_confidence (extract_scenario_signals prompt) =
     level_of_count ((if primary_events (extract_scenario_signals prompt) = [NoEvent] then 0
               else length (primary_events (extract_scenario_signals prompt))) +
              length (secondary_impacts (extract_scenario_signals prompt)) +
              (if sig_severity (extract_scenario_signals prompt) \<noteq> SevModerate then 1 else 0))"
    by (simp add: extract_scenario_signals_fields primary_matches_not_none)
  have c: "\<And>q. primary_events (extract_signals q) = primary_events (extract_signals prompt) \<Longrightarrow>
        secondary_impacts (extract_signals q) = secondary_impacts (extract_signals prompt) \<Longrightarrow>
        sig_confidence (extract_signals q) = sig_confidence (extract_signals prompt)"
    by (simp only: a)
  have d: "\<forall>q. primary_events (extract_signals q) = primary_events (extract_signals prompt) \<and>
        secondary_impacts (extract_signals q) = secondary_impacts (extract_signals prompt) \<longrightarrow>
        sig_confidence (extract_signals q) = sig_confidence (extract_signals prompt)"
    using c by blast
  have a': "sig_confidence (extract_signals prompt) =
     (let n = (if primary_events (extract_signals prompt) = [NoEvent] then 0
               else length (primary_events (extract_signals prompt))) +
              length (secondary_impacts (extract_signals prompt))
      in if 2 \<le> n then LevelHigh else if n = 1 then LevelMedium else LevelLow)"
    using a [of prompt] by (simp add: level_of_count_def Let_def)
  have b': "sig_confidence (extract_scenario_signals prompt) =
     (let n = (if primary_events (extract_scenario_signals prompt) = [NoEvent] then 0
               else length (primary_events (extract_scenario_signals prompt))) +
              length (secondary_impacts (extract_scenario_signals prompt)) +
              (if sig_severity (extract_scenario_signals prompt) \<noteq> SevModerate then 1 else 0)
      in if 2 \<le> n then LevelHigh else if n = 1 then LevelMedium else LevelLow)"
    using b by (simp add: level_of_count_def Let_def)
  from a' b' d show ?thesis by (intro conjI)
qed

lemma extract_signals_monsoon:
  "extract_signals ''prolonged monsoon flooding that disrupts transport and hospital access'' =
     \<lparr>primary_events = [Flood], sig_duration = DurProlonged, sig_severity = SevModerate,
      secondary_impacts = [TransportDisruption, HospitalAccessReduction],
      sig_confidence = LevelHigh\<rparr>"
  by code_simp

lemma extract_signals_severe_flood:
  "extract_signals ''severe flood'' =
     \<lparr>primary_events = [Flood], sig_duration = DurModerate, sig_severity = SevHigh,
      secondary_impacts = [], sig_confidence = LevelMedium\<rparr>"
  by code_simp

lemma extract_signals_flood:
  "extract_signals ''flood'' =
     \<lparr>primary_events = [Flood], sig_duration = DurModerate, sig_severity = SevModerate,
      secondary_impacts = [], sig_confidence = LevelMedium\<rparr>"
  by code_simp

text \<open>
  C7 as stated fails on \<^verbatim>\<open>ScenarioDeltas.extract_scenario_signals\<close>: the prompt
  ``severe flood'' has one match across events and impacts (the flood), and the severity
  word lifts its confidence to high.
\<close>

theorem extraction_confidence_counterexample:
  "extract_scenario_signals ''severe flood'' =
     \<lparr>primary_events = [Flood], sig_duration = DurModerate, sig_severity = SevHigh,
      secondary_impacts = [], sig_confidence = LevelHigh\<rparr>"
  by code_simp

theorem extraction_confidence_witness:
  "sig_confidence
     (extract_signals ''prolonged monsoon flooding that disrupts transport and hospital access'') =
     LevelHigh \<and>
   sig_confidence (extract_signals ''severe flood'') = sig_confidence (extract_signals ''flood'')"
proof -
  note th = extraction_confidence [of "''flood''"]
  have "primary_events (extract_signals ''severe flood'') = primary_events (extract_signals ''flood'') \<and>
        secondary_impacts (extract_signals ''severe flood'') = secondary_impacts (extract_signals ''flood'')"
    by (simp add: extract_signals_severe_flood extract_signals_flood)
  with th have "sig_confidence (extract_signals ''severe flood'') = sig_confidence (extract_signals ''flood'')"
    by blast
  then show ?thesis
    by (simp add: extract_signals_monsoon)
qed

section \<open>Preprocessing: what holds whenever it returns\<close>

text \<open>Every field of a returned slice lies in the range of its domain, whatever the
  input was.\<close>

lemma clip_to_range_in_range: "lo \<le> hi \<Longrightarrow> in_range (clip_to_range v lo hi) lo hi"
  by (cases v) (auto simp: clip_to_range_def in_range_def Let_def)

lemma clip_to_range_int_bounds:
  "lo \<le> hi \<Longrightarrow> lo \<le> clip_to_range_int n lo hi \<and> clip_to_range_int n lo hi \<le> hi"
  by (auto simp: clip_to_range_int_def Let_def)

lemma float_field_in_range:
  assumes "float_field parse m k d lo hi tag = Inr (x, a)" "lo \<le> d" "d \<le> hi"
  shows "in_range x lo hi"
  using assms clip_to_range_in_range [of lo hi]
  by (auto simp: float_field_def catch_tv_def bind_err_def in_range_def
           split: sum.splits if_splits)

lemma temperature_field_in_range:
  assumes "temperature_field parse m d rc = Inr (x, a)" "0 \<le> d" "d \<le> 50"
  shows "in_range x 0 50"
  using assms clip_to_range_in_range [of 0 50]
  by (auto simp: temperature_field_def catch_tv_def bind_err_def in_range_def Let_def
           split: sum.splits if_splits)

lemma int_field_bounds:
  assumes "int_field parse m k d lo hi tag = Inr (n, a)" "lo \<le> d" "d \<le> hi"
  shows "lo \<le> n \<and> n \<le> hi"
  using assms clip_to_range_int_bounds [of lo hi]
  by (auto simp: int_field_def catch_tv_def bind_err_def
           split: sum.splits if_splits)

lemma preprocess_environmental_in_range:
  assumes "preprocess_environmental_metrics parse m = Inr (e, a)"
  shows "in_range (em_aqi e) 0 500 \<and> 0 \<le> em_traffic_density e \<and> em_traffic_density e \<le> 2 \<and>
         in_range (em_temperature e) 0 50 \<and> in_range (em_rainfall e) 0 200"
  using assms clip_to_range_in_range [of 0 500] clip_to_range_int_bounds [of 0 2]
  by (auto simp: preprocess_environmental_metrics_def catch_tv_def bind_err_def Let_def in_range_def
           split: sum.splits if_splits prod.splits
           dest: temperature_field_in_range float_field_in_range)

lemma preprocess_health_in_range:
  assumes "preprocess_health_metrics parse m None = Inr (h, a)"
  shows "in_range (hm_aqi h) 0 500 \<and> in_range (hm_hospital_load h) 0 1 \<and>
         0 \<le> hm_respiratory_cases h \<and> hm_respiratory_cases h \<le> 10000 \<and>
         in_range (hm_temperature h) 0 50 \<and> in_range (hm_environmental_risk_prob h) 0 1"
  using assms clip_to_range_in_range [of 0 1]
  by (auto simp: preprocess_health_metrics_def catch_tv_def bind_err_def Let_def in_range_def
           split: sum.splits if_splits prod.splits
           dest: temperature_field_in_range float_field_in_range int_field_bounds)

lemma preprocess_food_in_range:
  assumes "preprocess_food_metrics parse m = Inr (f, a)"
  shows "in_range (fm_crop_supply_index f) 0 100 \<and> in_range (fm_food_price_index f) 50 200 \<and>
         in_range (fm_rainfall f) 0 200 \<and> in_range (fm_temperature f) 0 50 \<and>
         0 \<le> fm_supply_disruption_events f \<and> fm_supply_disruption_events f \<le> 10"
  using assms
  by (auto simp: preprocess_food_metrics_def bind_err_def
           split: sum.splits prod.splits
           dest: temperature_field_in_range float_field_in_range int_field_bounds)

lemma preprocess_all_in_range:
  assumes "preprocess_all_metrics parse m = Inr (e, h, f, a)"
  shows "in_range (em_aqi e) 0 500 \<and> 0 \<le> em_traffic_density e \<and> em_traffic_density e \<le> 2 \<and>
         in_range (em_temperature e) 0 50 \<and> in_range (em_rainfall e) 0 200 \<and>
         in_range (hm_aqi h) 0 500 \<and> in_range (hm_hospital_load h) 0 1 \<and>
         0 \<le> hm_respiratory_cases h \<and> hm_respiratory_cases h \<le> 10000 \<and>
         in_range (hm_temperature h) 0 50 \<and> in_range (hm_environmental_risk_prob h) 0 1 \<and>
         in_range (fm_crop_supply_index f) 0 100 \<and> in_range (fm_food_price_index f) 50 200 \<and>
         in_range (fm_rainfall f) 0 200 \<and> in_range (fm_temperature f) 0 50 \<and>
         0 \<le> fm_supply_disruption_events f \<and> fm_supply_disruption_events f \<le> 10"
proof -
  from assms obtain ea ha fa where
    "preprocess_environmental_metrics parse m = Inr (e, ea)"
    "preprocess_health_metrics parse m None = Inr (h, ha)"
    "preprocess_food_metrics parse m = Inr (f, fa)"
    by (auto simp: preprocess_all_metrics_def bind_err_def split: sum.splits prod.splits)
  then show ?thesis
    using preprocess_environmental_in_range preprocess_health_in_range preprocess_food_in_range
    by blast
qed

text \<open>A metric bag whose fields are all present, numeric and in range comes back
  unchanged, with no assumption recorded.\<close>

lemma trunc_real_of_int: "trunc_real (of_int n) = n"
  by (simp add: trunc_real_def)

lemma round_half_even_of_int: "round_half_even (of_int n) = n"
  by (simp add: round_half_even_def Let_def)

lemma clip_to_range_valid: "lo \<le> x \<Longrightarrow> x \<le> hi \<Longrightarrow> clip_to_range (Fin x) lo hi = Fin x"
  by (auto simp: clip_to_range_def Let_def)

lemma clip_to_range_int_valid: "lo \<le> n \<Longrightarrow> n \<le> hi \<Longrightarrow> clip_to_range_int n lo hi = n"
  by (auto simp: clip_to_range_int_def Let_def)

lemma float_field_valid:
  "m k = Some (PFloat (Fin x)) \<Longrightarrow> lo \<le> x \<Longrightarrow> x \<le> hi \<Longrightarrow>
   float_field parse m k d lo hi tag = Inr (Fin x, [])"
  by (simp add: float_field_def metrics_get_def handle_missing_def py_float_def bind_err_def
        catch_tv_def clip_to_range_valid)

lemma temperature_field_valid:
  "m ''temperature'' = Some (PFloat (Fin x)) \<Longrightarrow> 0 \<le> x \<Longrightarrow> x \<le> 50 \<Longrightarrow>
   temperature_field parse m d rc = Inr (Fin x, [])"
  by (simp add: temperature_field_def metrics_get_def handle_missing_def py_float_def bind_err_def
        catch_tv_def clip_to_range_valid)

lemma int_field_valid:
  "m k = Some (PInt n) \<Longrightarrow> lo \<le> n \<Longrightarrow> n \<le> hi \<Longrightarrow> \<bar>n\<bar> < 2 ^ 1024 - 2 ^ 970 \<Longrightarrow>
   int_field parse m k d lo hi tag = Inr (n, [])"
  by (simp add: int_field_def metrics_get_def handle_missing_def py_float_def bind_err_def
        catch_tv_def clip_to_range_int_valid trunc_real_of_int)

lemma small_int_converts: "0 \<le> n \<Longrightarrow> n \<le> 10000 \<Longrightarrow> \<bar>n::int\<bar> < 2 ^ 1024 - 2 ^ 970"
  by simp

lemma preprocess_environmental_valid:
  assumes "m ''aqi'' = Some (PFloat (Fin aqi))" "0 \<le> aqi" "aqi \<le> 500"
    "m ''traffic_density'' = Some (PInt td)" "0 \<le> td" "td \<le> 2"
    "m ''temperature'' = Some (PFloat (Fin temp))" "0 \<le> temp" "temp \<le> 50"
    "m ''rainfall'' = Some (PFloat (Fin rain))" "0 \<le> rain" "rain \<le> 200"
  shows "preprocess_environmental_metrics parse m =
           Inr (\<lparr>em_aqi = Fin aqi, em_traffic_density = td, em_temperature = Fin temp,
                 em_rainfall = Fin rain\<rparr>, [])"
proof -
  have big: "\<bar>td\<bar> < 2 ^ 1024 - 2 ^ 970"
    using assms by (intro small_int_converts) simp_all
  show ?thesis
    using assms big
    by (simp add: preprocess_environmental_metrics_def temperature_field_valid float_field_valid
          metrics_get_def handle_missing_def py_float_def bind_err_def catch_tv_def
          clip_to_range_valid clip_to_range_int_valid round_half_even_of_int)
qed

lemma preprocess_health_valid:
  assumes "m ''aqi'' = Some (PFloat (Fin aqi))" "0 \<le> aqi" "aqi \<le> 500"
    "m ''hospital_load'' = Some (PFloat (Fin load))" "0 \<le> load" "load \<le> 1"
    "m ''respiratory_cases'' = Some (PInt cases)" "0 \<le> cases" "cases \<le> 10000"
    "m ''temperature'' = Some (PFloat (Fin temp))" "0 \<le> temp" "temp \<le> 50"
    "m ''environmental_risk_prob'' = Some (PFloat (Fin erp))" "0 \<le> erp" "erp \<le> 1"
  shows "preprocess_health_metrics parse m None =
           Inr (\<lparr>hm_aqi = Fin aqi, hm_hospital_load = Fin load, hm_respiratory_cases = cases,
                 hm_temperature = Fin temp, hm_environmental_risk_prob = Fin erp\<rparr>, [])"
proof -
  have big: "\<bar>cases\<bar> < 2 ^ 1024 - 2 ^ 970"
    using assms by (intro small_int_converts) simp_all
  show ?thesis
    using assms big
    by (simp add: preprocess_health_metrics_def temperature_field_valid float_field_valid
          int_field_valid metrics_get_def handle_missing_def py_float_def bind_err_def
          catch_tv_def clip_to_range_valid)
qed

lemma preprocess_food_valid:
  assumes "m ''crop_supply_index'' = Some (PFloat (Fin crop))" "0 \<le> crop" "crop \<le> 100"
    "m ''food_price_index'' = Some (PFloat (Fin price))" "50 \<le> price" "price \<le> 200"
    "m ''rainfall'' = Some (PFloat (Fin rain))" "0 \<le> rain" "rain \<le> 200"
    "m ''temperature'' = Some (PFloat (Fin temp))" "0 \<le> temp" "temp \<le> 50"
    "m ''supply_disruption_events'' = Some (PInt events)" "0 \<le> events" "events \<le> 10"
  shows "preprocess_food_metrics parse m =
           Inr (\<lparr>fm_crop_supply_index = Fin crop, fm_food_price_index = Fin price,
                 fm_rainfall = Fin rain, fm_temperature = Fin temp,
                 fm_supply_disruption_events = events\<rparr>, [])"
proof -
  have big: "\<bar>events\<bar> < 2 ^ 1024 - 2 ^ 970"
    using assms by (intro small_int_converts) simp_all
  show ?thesis
    using assms big
    by (simp add: preprocess_food_metrics_def temperature_field_valid float_field_valid
          int_field_valid bind_err_def)
qed

lemma preprocess_valid_unchanged:
  assumes "m ''aqi'' = Some (PFloat (Fin aqi))" "0 \<le> aqi" "aqi \<le> 500"
    "m ''traffic_density'' = Some (PInt td)" "0 \<le> td" "td \<le> 2"
    "m ''temperature'' = Some (PFloat (Fin temp))" "0 \<le> temp" "temp \<le> 50"
    "m ''rainfall'' = Some (PFloat (Fin rain))" "0 \<le> rain" "rain \<le> 200"
    "m ''hospital_load'' = Some (PFloat (Fin load))" "0 \<le> load" "load \<le> 1"
    "m ''respiratory_cases'' = Some (PInt cases)" "0 \<le> cases" "cases \<le> 10000"
    "m ''environmental_risk_prob'' = Some (PFloat (Fin erp))" "0 \<le> erp" "erp \<le> 1"
    "m ''crop_supply_index'' = Some (PFloat (Fin crop))" "0 \<le> crop" "crop \<le> 100"
    "m ''food_price_index'' = Some (PFloat (Fin price))" "50 \<le> price" "price \<le> 200"
    "m ''supply_disruption_events'' = Some (PInt events)" "0 \<le> events" "events \<le> 10"
  shows "preprocess_all_metrics parse m =
         Inr (\<lparr>em_aqi = Fin aqi, em_traffic_density = td, em_temperature = Fin temp,
               em_rainfall = Fin rain\<rparr>,
              \<lparr>hm_aqi = Fin aqi, hm_hospital_load = Fin load, hm_respiratory_cases = cases,
               hm_temperature = Fin temp, hm_environmental_risk_prob = Fin erp\<rparr>,
              \<lparr>fm_crop_supply_index = Fin crop, fm_food_price_index = Fin price,
               fm_rainfall = Fin rain, fm_temperature = Fin temp,
               fm_supply_disruption_events = events\<rparr>,
              [])"
  using assms
  by (simp add: preprocess_all_metrics_def bind_err_def preprocess_environmental_valid
        preprocess_health_valid preprocess_food_valid)

section \<open>Sequences of calls\<close>

text \<open>Predictions are returned only by calls that got past the gate.\<close>

lemma run_calls_Cons:
  "fst (run_calls e s (ck # cks)) =
     fst (run_inference e ck s) # fst (run_calls e (snd (run_inference e ck s)) cks)"
  by (simp split: prod.splits)

lemma run_calls_predictions:
  "length (filter (\<lambda>r. r \<noteq> None) (fst (run_calls e s cks))) \<le> length (executed_times e s cks)"
proof (induction cks arbitrary: s)
  case Nil
  show ?case by simp
next
  case (Cons ck cks)
  show ?case
  proof (cases "gate_rejects s (ck_current_time ck)")
    case True
    then have r: "run_inference e ck s = (None, s)"
      by (rule run_inference_rejected)
    from Cons.IH [of s] show ?thesis
      unfolding run_calls_Cons by (simp add: r True)
  next
    case False
    from Cons.IH [of "snd (run_inference e ck s)"] show ?thesis
      unfolding run_calls_Cons by (simp add: False)
  qed
qed

end
